theory Spec2Isabelle
  imports Complex_Main "HOL-Library.Sublist"
begin

section \<open>JavaScript values\<close>

text \<open>
  The services under study are JavaScript: \<open>modelBridge.js\<close> (providers and bridge),
  \<open>redis.js\<close> (cache) and \<open>config.ts\<close> (configuration). Their values are modelled as
  follows. A number is a finite double, written as the real it denotes (a decimal literal of
  the source standing for its double, \<open>Number 0\<close> being the positive zero), or the
  negative zero, or NaN, or one of the two infinities. The program compares numbers, takes
  minima and maxima and writes them to JSON text and reads them back; these operations are
  exact on finite doubles, and JSON text has no NaN, no infinity and writes the negative
  zero as \<open>0\<close>. A string is a list of characters. An object is the list of its properties,
  each name once, in insertion order.
\<close>

datatype jsnum = Number real | NegZero | NaN | PosInfinity | NegInfinity

datatype jsval = JUndefined | JNull | JBool bool | JNum jsnum | JStr string
  | JArr "jsval list" | JObj "(string \<times> jsval) list"

datatype js_error = Error string | TypeError string | SyntaxError string | AxiosError string

fun truthy :: "jsval \<Rightarrow> bool" where
  "truthy JUndefined = False"
| "truthy JNull = False"
| "truthy (JBool b) = b"
| "truthy (JNum n) = (n \<noteq> Number 0 \<and> n \<noteq> NegZero \<and> n \<noteq> NaN)"
| "truthy (JStr s) = (s \<noteq> [])"
| "truthy (JArr xs) = True"
| "truthy (JObj kvs) = True"

definition js_or :: "jsval \<Rightarrow> jsval \<Rightarrow> jsval" where
  "js_or a b = (if truthy a then a else b)"

text \<open>
  The value that \<open>JSON.parse(JSON.stringify(v))\<close> yields for a value \<open>v\<close> other than
  undefined: NaN and the infinities become null, the negative zero becomes the positive
  zero, an undefined array element becomes null, and a property whose value is undefined
  is left out.
\<close>

fun json_norm :: "jsval \<Rightarrow> jsval" where
  "json_norm (JNum n) =
     (case n of Number r \<Rightarrow> JNum n | NegZero \<Rightarrow> JNum (Number 0) | _ \<Rightarrow> JNull)"
| "json_norm JUndefined = JNull"
| "json_norm (JArr xs) = JArr (map json_norm xs)"
| "json_norm (JObj kvs) =
     JObj (map (\<lambda>kv. (fst kv, json_norm (snd kv))) (filter (\<lambda>kv. snd kv \<noteq> JUndefined) kvs))"
| "json_norm v = v"


text \<open>\<open>Array.isArray(v)\<close>.\<close>

fun isArray :: "jsval \<Rightarrow> bool" where
  "isArray (JArr xs) = True"
| "isArray v = False"

text \<open>
  Optional property access \<open>v?.k\<close> for a name \<open>k\<close> other than \<open>length\<close>: undefined when
  \<open>v\<close> is null or undefined, the property when \<open>v\<close> is an object that has it, undefined
  otherwise (a number, a boolean, a string or an array has no own property of the names the
  program reads).
\<close>

fun opt_prop :: "jsval \<Rightarrow> string \<Rightarrow> jsval" where
  "opt_prop (JObj kvs) k = (case map_of kvs k of None \<Rightarrow> JUndefined | Some v \<Rightarrow> v)"
| "opt_prop v k = JUndefined"

text \<open>Optional index access \<open>v?.[0]\<close>.\<close>

fun opt_index0 :: "jsval \<Rightarrow> jsval" where
  "opt_index0 (JArr xs) = (case xs of [] \<Rightarrow> JUndefined | x # _ \<Rightarrow> x)"
| "opt_index0 (JObj kvs) = (case map_of kvs ''0'' of None \<Rightarrow> JUndefined | Some v \<Rightarrow> v)"
| "opt_index0 (JStr s) = (case s of [] \<Rightarrow> JUndefined | c # _ \<Rightarrow> JStr [c])"
| "opt_index0 v = JUndefined"

text \<open>Plain property access \<open>v.k\<close>: a TypeError on null and undefined.\<close>

definition get_prop :: "jsval \<Rightarrow> string \<Rightarrow> js_error + jsval" where
  "get_prop v k =
     (if v = JUndefined \<or> v = JNull then Inl (TypeError ''Cannot read properties'')
      else Inr (opt_prop v k))"

text \<open>
  The parts of the JavaScript runtime that the program calls and that are not part of its
  own source. \<open>JSON_parse\<close> is \<open>JSON.parse\<close> on text (None: it throws a SyntaxError);
  \<open>StringToNumber\<close> is the conversion of a string to a number; \<open>ArrayToString\<close> is the
  conversion of an array to a string, which joins the strings of its elements (None: it
  throws a TypeError, as it does when an element is an object whose \<open>toString\<close> is not
  a function); \<open>String_trim\<close> is \<open>String.prototype.trim\<close>; \<open>parseFloat\<close> is the global
  function; \<open>sha256_hex\<close> is \<open>crypto.createHash('sha256').update(text).digest('hex')\<close>.
\<close>

record js_runtime =
  JSON_parse :: "string \<Rightarrow> jsval option"
  StringToNumber :: "string \<Rightarrow> jsnum"
  ArrayToString :: "jsval list \<Rightarrow> string option"
  String_trim :: "string \<Rightarrow> string"
  parseFloat :: "string \<Rightarrow> jsnum"
  sha256_hex :: "string \<Rightarrow> string"

text \<open>
  The conversion \<open>ToNumber\<close> that \<open>Math.min\<close> and \<open>Math.max\<close> apply to their arguments.
  An object is first converted to a primitive: \<open>valueOf\<close> of a plain object yields the
  object itself, so its \<open>toString\<close> decides. An object parsed from JSON that has a property
  \<open>toString\<close> of its own has no callable \<open>toString\<close>, and the conversion throws a
  TypeError; any other object parsed from JSON becomes \<open>[object Object]\<close>, which is not a
  number.
\<close>

fun ToNumber :: "js_runtime \<Rightarrow> jsval \<Rightarrow> js_error + jsnum" where
  "ToNumber rt JUndefined = Inr NaN"
| "ToNumber rt JNull = Inr (Number 0)"
| "ToNumber rt (JBool b) = Inr (Number (if b then 1 else 0))"
| "ToNumber rt (JNum n) = Inr n"
| "ToNumber rt (JStr s) = Inr (StringToNumber rt s)"
| "ToNumber rt (JArr xs) =
     (case ArrayToString rt xs of
        None \<Rightarrow> Inl (TypeError ''Cannot convert object to primitive value'')
      | Some s \<Rightarrow> Inr (StringToNumber rt s))"
| "ToNumber rt (JObj kvs) =
     (if map_of kvs ''toString'' \<noteq> None
      then Inl (TypeError ''Cannot convert object to primitive value'')
      else Inr NaN)"

text \<open>
  The order of the numbers, as the comparison operators see it: no comparison with NaN
  holds, and the two zeros are equal.
\<close>

fun finite_value :: "jsnum \<Rightarrow> real" where
  "finite_value (Number x) = x"
| "finite_value n = 0"

fun jsnum_le :: "jsnum \<Rightarrow> jsnum \<Rightarrow> bool" where
  "jsnum_le NaN b = False"
| "jsnum_le a NaN = False"
| "jsnum_le NegInfinity b = True"
| "jsnum_le a PosInfinity = True"
| "jsnum_le PosInfinity b = False"
| "jsnum_le a NegInfinity = False"
| "jsnum_le a b = (finite_value a \<le> finite_value b)"

text \<open>
  \<open>Math.min\<close> and \<open>Math.max\<close> of two numbers: NaN as soon as one argument is NaN; of the
  two zeros the negative one is the smaller.
\<close>

definition Math_min :: "jsnum \<Rightarrow> jsnum \<Rightarrow> jsnum" where
  "Math_min a b =
     (if a = NaN \<or> b = NaN then NaN
      else if a = Number 0 \<and> b = NegZero then NegZero
      else if jsnum_le a b then a else b)"

definition Math_max :: "jsnum \<Rightarrow> jsnum \<Rightarrow> jsnum" where
  "Math_max a b =
     (if a = NaN \<or> b = NaN then NaN
      else if a = Number 0 \<and> b = NegZero then Number 0
      else if jsnum_le a b then b else a)"

text \<open>The comparison \<open>a >= b\<close> of two numbers: false as soon as one of them is NaN.\<close>

definition js_ge :: "jsnum \<Rightarrow> jsnum \<Rightarrow> bool" where
  "js_ge a b = jsnum_le b a"

text \<open>
  \<open>content.match(/\{[\s\S]*\}/)\<close>: the match starts at the first opening brace and, the
  star being greedy, ends at the last closing brace after it; there is no match when no
  closing brace follows the first opening brace.
\<close>

definition match_braces :: "string \<Rightarrow> string option" where
  "match_braces content =
     (case dropWhile (\<lambda>c. c \<noteq> CHR ''{'') content of
        [] \<Rightarrow> None
      | ob # rest \<Rightarrow>
          (case rev (dropWhile (\<lambda>c. c \<noteq> CHR ''}'') (rev rest)) of
             [] \<Rightarrow> None
           | body \<Rightarrow> Some (ob # body)))"

text \<open>The decimal digits of a natural number, for messages that quote a status code.\<close>

fun show_nat :: "nat \<Rightarrow> string" where
  "show_nat n =
     (if n < 10 then [''0123456789'' ! n] else show_nat (n div 10) @ [''0123456789'' ! (n mod 10)])"

section \<open>The world: clock, Redis, network and log\<close>

text \<open>
  A string held by Redis: \<open>Json v\<close> is JSON text denoting the value \<open>v\<close> (what
  \<open>JSON.stringify\<close> writes and \<open>JSON.parse\<close> reads back), \<open>Raw s\<close> is the text \<open>s\<close>
  that is not JSON.
\<close>

datatype redis_value = Json jsval | Raw string

text \<open>
  A prompt is the fixed template of the source with its holes filled: for an analysis the
  URL (or \<open>Not provided\<close>), the first 2000 characters of the text and whether the
  truncation mark is added; for a chat the context and the question.
\<close>

datatype prompt = AnalysisPrompt string string bool | ChatPrompt string string

text \<open>
  What the network does with a request: it lets the 30 seconds pass, it fails before any
  response arrives (with the message of the error that the transport reports), or it
  delivers a response with a status code and a body.
\<close>

datatype http_result = HttpTimeout | HttpNoResponse string | HttpResponse nat jsval

datatype event =
    LogDebug string | LogInfo string | LogWarn string | LogError string
  | RedisGet string | RedisSetEx string nat redis_value | RedisDel string
  | HttpPost string prompt

text \<open>
  \<open>now\<close> is the clock in seconds. \<open>redis_open\<close> says that the client exists and its
  connection is open; \<open>redis_faults n\<close> says that the \<open>n\<close>-th command sent to Redis is
  rejected; \<open>redis_store\<close> maps a key to its string and the time at which it expires.
  \<open>http_script n\<close> is what the network answers to the \<open>n\<close>-th request. \<open>trace\<close> lists
  the effects so far, oldest first.
\<close>

record world =
  now :: nat
  redis_open :: bool
  redis_faults :: "nat \<Rightarrow> bool"
  redis_cmds :: nat
  redis_store :: "string \<Rightarrow> (redis_value \<times> nat) option"
  http_script :: "nat \<Rightarrow> http_result"
  http_calls :: nat
  trace :: "event list"

type_synonym 'a io = "world \<Rightarrow> (js_error + 'a) \<times> world"

definition return :: "'a \<Rightarrow> 'a io" where
  "return v w = (Inr v, w)"

definition throw :: "js_error \<Rightarrow> 'a io" where
  "throw e w = (Inl e, w)"

definition bind :: "'a io \<Rightarrow> ('a \<Rightarrow> 'b io) \<Rightarrow> 'b io" where
  "bind m f w = (case m w of (Inl e, w1) \<Rightarrow> (Inl e, w1) | (Inr v, w1) \<Rightarrow> f v w1)"

definition try_catch :: "'a io \<Rightarrow> (js_error \<Rightarrow> 'a io) \<Rightarrow> 'a io" where
  "try_catch body handler w =
     (case body w of (Inl e, w1) \<Rightarrow> handler e w1 | (Inr v, w1) \<Rightarrow> (Inr v, w1))"

definition emit :: "event \<Rightarrow> unit io" where
  "emit ev w = (Inr (), w\<lparr>trace := trace w @ [ev]\<rparr>)"

definition logger_debug :: "string \<Rightarrow> unit io" where
  "logger_debug msg = emit (LogDebug msg)"

definition logger_info :: "string \<Rightarrow> unit io" where
  "logger_info msg = emit (LogInfo msg)"

definition logger_warn :: "string \<Rightarrow> unit io" where
  "logger_warn msg = emit (LogWarn msg)"

definition logger_error :: "string \<Rightarrow> unit io" where
  "logger_error msg = emit (LogError msg)"

definition error_message :: "js_error \<Rightarrow> string" where
  "error_message e =
     (case e of Error m \<Rightarrow> m | TypeError m \<Rightarrow> m | SyntaxError m \<Rightarrow> m | AxiosError m \<Rightarrow> m)"

text \<open>The time by which the clock moves between two operations.\<close>

definition advance :: "nat \<Rightarrow> world \<Rightarrow> world" where
  "advance d w = w\<lparr>now := now w + d\<rparr>"

subsection \<open>redis.js\<close>

definition getRedisClient :: "unit io" where
  "getRedisClient w =
     (if \<not> redis_open w then throw (Error ''Redis not connected. Call connectRedis() first.'') w
      else return () w)"

text \<open>The commands \<open>GET\<close>, \<open>SETEX\<close> and \<open>DEL\<close> of the client.\<close>

definition redis_command :: "event \<Rightarrow> (world \<Rightarrow> 'a \<times> world) \<Rightarrow> 'a io" where
  "redis_command ev run w =
     (let w1 = w\<lparr>redis_cmds := Suc (redis_cmds w), trace := trace w @ [ev]\<rparr>
      in if redis_faults w (redis_cmds w) then (Inl (Error ''Redis command failed''), w1)
         else (case run w1 of (v, w2) \<Rightarrow> (Inr v, w2)))"

definition client_get :: "string \<Rightarrow> redis_value option io" where
  "client_get key =
     redis_command (RedisGet key)
       (\<lambda>w. (case redis_store w key of
                None \<Rightarrow> None
              | Some (v, expires) \<Rightarrow> if now w < expires then Some v else None, w))"

definition client_setEx :: "string \<Rightarrow> nat \<Rightarrow> redis_value \<Rightarrow> unit io" where
  "client_setEx key ttlSeconds v =
     redis_command (RedisSetEx key ttlSeconds v)
       (\<lambda>w. ((), w\<lparr>redis_store := (redis_store w)(key \<mapsto> (v, now w + ttlSeconds))\<rparr>))"

definition client_del :: "string \<Rightarrow> unit io" where
  "client_del key =
     redis_command (RedisDel key) (\<lambda>w. ((), w\<lparr>redis_store := (redis_store w)(key := None)\<rparr>))"

text \<open>
  \<open>JSON.parse(value)\<close> on a stored string, and \<open>JSON.stringify(value)\<close> as the argument
  of \<open>setEx\<close>: for undefined it yields undefined, which the client refuses with a TypeError
  before any command is sent.
\<close>

definition JSON_parse_stored :: "redis_value \<Rightarrow> jsval io" where
  "JSON_parse_stored value =
     (case value of Json v \<Rightarrow> return v | Raw s \<Rightarrow> throw (SyntaxError ''Unexpected token''))"

definition JSON_stringify :: "jsval \<Rightarrow> redis_value io" where
  "JSON_stringify v =
     (if v = JUndefined then throw (TypeError ''Invalid argument type'')
      else return (Json (json_norm v)))"

definition stored_truthy :: "redis_value option \<Rightarrow> bool" where
  "stored_truthy value = (case value of None \<Rightarrow> False | Some (Json v) \<Rightarrow> True | Some (Raw s) \<Rightarrow> s \<noteq> [])"

definition cache_get_body :: "string \<Rightarrow> jsval io" where
  "cache_get_body key =
     bind getRedisClient (\<lambda>client.
     bind (client_get key) (\<lambda>value.
     if stored_truthy value then JSON_parse_stored (the value) else return JNull))"

definition cache_get :: "string \<Rightarrow> jsval io" where
  "cache_get key =
     try_catch (cache_get_body key)
       (\<lambda>error. bind (logger_error ''Cache get error:'') (\<lambda>_. return JNull))"

definition cache_set_body :: "string \<Rightarrow> jsval \<Rightarrow> nat \<Rightarrow> unit io" where
  "cache_set_body key v ttlSeconds =
     bind getRedisClient (\<lambda>client.
     bind (JSON_stringify v) (\<lambda>text.
     client_setEx key ttlSeconds text))"

definition cache_set :: "string \<Rightarrow> jsval \<Rightarrow> nat \<Rightarrow> unit io" where
  "cache_set key v ttlSeconds =
     try_catch (cache_set_body key v ttlSeconds) (\<lambda>error. logger_error ''Cache set error:'')"

definition cache_delete_body :: "string \<Rightarrow> unit io" where
  "cache_delete_body key = bind getRedisClient (\<lambda>client. client_del key)"

definition cache_delete :: "string \<Rightarrow> unit io" where
  "cache_delete key =
     try_catch (cache_delete_body key) (\<lambda>error. logger_error ''Cache delete error:'')"

definition cache_generateKey :: "string \<Rightarrow> string \<Rightarrow> string \<Rightarrow> string" where
  "cache_generateKey pfx hash model = pfx @ '':'' @ hash @ '':'' @ model"


definition lift :: "js_error + 'a \<Rightarrow> 'a io" where
  "lift r w = (r, w)"

section \<open>config.ts\<close>

text \<open>
  \<open>process.env\<close> is a map from names to strings. Of the configuration object only the
  fields read by the model bridge and the detection thresholds are kept.
\<close>

type_synonym env = "string \<Rightarrow> string option"

record Config =
  modelProvider :: string
  config_modelName :: string
  geminiApiKey :: "string option"
  openaiApiKey :: "string option"
  lowThreshold :: jsnum
  highThreshold :: jsnum
  reportThreshold :: jsnum

text \<open>Truthiness of \<open>process.env[key]\<close> and \<open>process.env[key] || dflt\<close>.\<close>

definition env_truthy :: "env \<Rightarrow> string \<Rightarrow> bool" where
  "env_truthy e key = (case e key of None \<Rightarrow> False | Some v \<Rightarrow> v \<noteq> [])"

definition env_or :: "env \<Rightarrow> string \<Rightarrow> string \<Rightarrow> string" where
  "env_or e key dflt = (if env_truthy e key then the (e key) else dflt)"

text \<open>\<open>s.includes(pat)\<close> and \<open>xs.join(', ')\<close>.\<close>

definition str_includes :: "string \<Rightarrow> string \<Rightarrow> bool" where
  "str_includes s pat = list_ex (prefix pat) (suffixes s)"

fun join_comma :: "string list \<Rightarrow> string" where
  "join_comma [] = []"
| "join_comma [x] = x"
| "join_comma (x # y # ys) = x @ '', '' @ join_comma (y # ys)"

definition validateConfig :: "js_runtime \<Rightarrow> env \<Rightarrow> js_error + unit" where
  "validateConfig rt e =
     (let required = [''JWT_SECRET'', ''DATABASE_URL''] @
            (if (case e ''DATABASE_URL'' of None \<Rightarrow> False | Some u \<Rightarrow> str_includes u ''supabase.co'')
             then [''SUPABASE_URL'', ''SUPABASE_ANON_KEY'', ''SUPABASE_SERVICE_KEY''] else []);
          missing = filter (\<lambda>key. \<not> env_truthy e key) required
      in if length missing > 0
         then Inl (Error (''Missing required environment variables: '' @ join_comma missing))
         else if env_truthy e ''MODEL_PROVIDER''
                 \<and> the (e ''MODEL_PROVIDER'') \<notin> set [''gemini'', ''openai'', ''local'']
         then Inl (Error (''Invalid MODEL_PROVIDER: '' @ the (e ''MODEL_PROVIDER'')
                          @ ''. Must be one of: gemini, openai, local''))
         else (let low = parseFloat rt (env_or e ''LOW_THRESHOLD'' ''0.3'');
                   high = parseFloat rt (env_or e ''HIGH_THRESHOLD'' ''0.7'');
                   report = parseFloat rt (env_or e ''REPORT_THRESHOLD'' ''0.8'')
               in if js_ge low high \<or> js_ge high report
                  then Inl (Error ''Invalid thresholds: LOW_THRESHOLD < HIGH_THRESHOLD < REPORT_THRESHOLD'')
                  else Inr ()))"

text \<open>
  The module-level \<open>config\<close>: None when \<open>validateConfig\<close> throws, the process then exits
  with status 1.
\<close>

definition loadConfig :: "js_runtime \<Rightarrow> env \<Rightarrow> Config option" where
  "loadConfig rt e =
     (case validateConfig rt e of
        Inl err \<Rightarrow> None
      | Inr _ \<Rightarrow> Some \<lparr>
          modelProvider = env_or e ''MODEL_PROVIDER'' ''gemini'',
          config_modelName = env_or e ''MODEL_NAME'' ''gemini-free'',
          geminiApiKey = e ''GEMINI_API_KEY'',
          openaiApiKey = e ''OPENAI_API_KEY'',
          lowThreshold = parseFloat rt (env_or e ''LOW_THRESHOLD'' ''0.3''),
          highThreshold = parseFloat rt (env_or e ''HIGH_THRESHOLD'' ''0.7''),
          reportThreshold = parseFloat rt (env_or e ''REPORT_THRESHOLD'' ''0.8'') \<rparr>)"

record ModelConfig =
  mc_provider :: string
  mc_apiKey :: "string option"
  mc_modelName :: string

definition getModelConfig :: "Config \<Rightarrow> js_error + ModelConfig" where
  "getModelConfig c =
     (if modelProvider c = ''gemini''
      then Inr \<lparr>mc_provider = ''gemini'', mc_apiKey = geminiApiKey c, mc_modelName = config_modelName c\<rparr>
      else if modelProvider c = ''openai''
      then Inr \<lparr>mc_provider = ''openai'', mc_apiKey = openaiApiKey c, mc_modelName = config_modelName c\<rparr>
      else if modelProvider c = ''local''
      then Inr \<lparr>mc_provider = ''local'', mc_apiKey = None, mc_modelName = config_modelName c\<rparr>
      else Inl (Error (''Unsupported model provider: '' @ modelProvider c)))"

section \<open>Label assignment\<close>

text \<open>
  Modelled from the spec: the code that assigns the label of a detection result
  (\<open>phishingDetection.js\<close>) is not among the sources, only the declaration of
  \<open>DetectionResult\<close> is. The spec gives the rule: a score below \<open>low\<close> is clean, a score
  from \<open>low\<close> up to but excluding \<open>high\<close> is suspicious, a score of \<open>high\<close> or more is
  phishing.
\<close>

datatype label = clean | suspicious | phishing

definition label_of_score :: "real \<Rightarrow> real \<Rightarrow> real \<Rightarrow> label" where
  "label_of_score low high s =
     (if s < low then clean else if s < high then suspicious else phishing)"

section \<open>modelBridge.js\<close>

datatype provider_class = GeminiProvider | OpenAIProvider | LocalProvider

text \<open>
  An instance of a provider class. \<open>oid\<close> is the identity of the object: each
  \<open>new\<close> expression of the program gives its own.
\<close>

record provider =
  cls :: provider_class
  apiKey :: "string option"
  modelName :: string
  provider_name :: string
  oid :: nat

record AnalysisRequest =
  req_text :: string
  req_url :: "string option"

record ChatRequest =
  chat_context :: string
  chat_question :: string
  chat_sessionId :: "string option"

definition generateCacheKey :: "js_runtime \<Rightarrow> provider \<Rightarrow> string \<Rightarrow> string \<Rightarrow> string" where
  "generateCacheKey rt p txt operation =
     (let hash = take 16 (sha256_hex rt txt)
      in cache_generateKey operation hash (modelName p))"

definition buildAnalysisPrompt :: "string \<Rightarrow> string option \<Rightarrow> prompt" where
  "buildAnalysisPrompt txt u =
     AnalysisPrompt (case u of None \<Rightarrow> ''Not provided'' | Some v \<Rightarrow> if v = [] then ''Not provided'' else v)
       (take 2000 txt) (length txt > 2000)"

definition buildChatPrompt :: "string \<Rightarrow> string \<Rightarrow> prompt" where
  "buildChatPrompt ctx q = ChatPrompt ctx q"


text \<open>
  \<open>axios.post(url, body, {timeout: 30000, ...})\<close>: the promise is rejected on a timeout,
  when no response arrives, and on a status outside 200..299; otherwise it resolves to the
  response, whose \<open>data\<close> is returned here.
\<close>

definition axios_post :: "string \<Rightarrow> prompt \<Rightarrow> jsval io" where
  "axios_post u body w =
     (let w1 = w\<lparr>http_calls := Suc (http_calls w), trace := trace w @ [HttpPost u body]\<rparr>
      in case http_script w (http_calls w) of
           HttpTimeout \<Rightarrow> (Inl (AxiosError ''timeout of 30000ms exceeded''), w1)
         | HttpNoResponse msg \<Rightarrow> (Inl (AxiosError msg), w1)
         | HttpResponse status data \<Rightarrow>
             if 200 \<le> status \<and> status < 300 then (Inr data, w1)
             else (Inl (AxiosError (''Request failed with status code '' @ show_nat status)), w1))"

definition class_label :: "provider_class \<Rightarrow> string" where
  "class_label c = (case c of GeminiProvider \<Rightarrow> ''Gemini'' | OpenAIProvider \<Rightarrow> ''OpenAI''
                    | LocalProvider \<Rightarrow> ''Local'')"

definition key_string :: "string option \<Rightarrow> string" where
  "key_string k = (case k of None \<Rightarrow> ''undefined'' | Some v \<Rightarrow> v)"

text \<open>The URL a provider posts to, for both operations.\<close>

definition provider_url :: "provider \<Rightarrow> string" where
  "provider_url p =
     (case cls p of
        GeminiProvider \<Rightarrow> ''https://generativelanguage.googleapis.com/v1beta/models'' @ ''/''
           @ modelName p @ '':generateContent?key='' @ key_string (apiKey p)
      | OpenAIProvider \<Rightarrow> ''https://api.openai.com/v1'' @ ''/chat/completions''
      | LocalProvider \<Rightarrow> [])"

text \<open>
  The text of the reply: \<open>data.candidates?.[0]?.content?.parts?.[0]?.text\<close> for Gemini,
  \<open>data.choices?.[0]?.message?.content\<close> for OpenAI.
\<close>

definition response_content :: "provider_class \<Rightarrow> jsval \<Rightarrow> js_error + jsval" where
  "response_content c data =
     (case c of
        GeminiProvider \<Rightarrow>
          (case get_prop data ''candidates'' of
             Inl err \<Rightarrow> Inl err
           | Inr candidates \<Rightarrow>
               Inr (opt_prop (opt_index0 (opt_prop (opt_prop (opt_index0 candidates) ''content'') ''parts'')) ''text''))
      | OpenAIProvider \<Rightarrow>
          (case get_prop data ''choices'' of
             Inl err \<Rightarrow> Inl err
           | Inr choices \<Rightarrow> Inr (opt_prop (opt_prop (opt_index0 choices) ''message'') ''content''))
      | LocalProvider \<Rightarrow> Inr JUndefined)"

text \<open>\<open>content.match(...)\<close>: a TypeError when the content is not a string.\<close>

definition content_match :: "jsval \<Rightarrow> js_error + string option" where
  "content_match content =
     (case content of JStr s \<Rightarrow> Inr (match_braces s)
      | _ \<Rightarrow> Inl (TypeError ''content.match is not a function''))"

definition JSON_parse_text :: "js_runtime \<Rightarrow> string \<Rightarrow> js_error + jsval" where
  "JSON_parse_text rt s =
     (case JSON_parse rt s of None \<Rightarrow> Inl (SyntaxError ''Unexpected token'') | Some v \<Rightarrow> Inr v)"

text \<open>Sequencing of computations that may throw; \<open>Inl\<close> is the exception.\<close>

definition sum_bind :: "js_error + 'a \<Rightarrow> ('a \<Rightarrow> js_error + 'b) \<Rightarrow> js_error + 'b" where
  "sum_bind r f = (case r of Inl e \<Rightarrow> Inl e | Inr v \<Rightarrow> f v)"

text \<open>\<open>Math.max(0, Math.min(1, v))\<close>.\<close>

definition clamp01 :: "js_runtime \<Rightarrow> jsval \<Rightarrow> js_error + jsnum" where
  "clamp01 rt v =
     sum_bind (ToNumber rt v) (\<lambda>n. Inr (Math_max (Number 0) (Math_min (Number 1) n)))"

text \<open>The object built from the parsed reply.\<close>

definition normalized_response :: "js_runtime \<Rightarrow> provider \<Rightarrow> jsval \<Rightarrow> js_error + jsval" where
  "normalized_response rt p parsed =
     sum_bind (get_prop parsed ''score'') (\<lambda>parsed_score.
     sum_bind (clamp01 rt (js_or parsed_score (JNum (Number 0)))) (\<lambda>score.
     sum_bind (clamp01 rt (js_or (opt_prop parsed ''confidence'') (JNum (Number 0.5)))) (\<lambda>confidence.
     Inr (JObj [
       (''score'', JNum score),
       (''label'', js_or (opt_prop parsed ''label'') (JStr ''uncertain'')),
       (''reasons'', if isArray (opt_prop parsed ''reasons'') then opt_prop parsed ''reasons''
                     else JArr []),
       (''explanation'', js_or (opt_prop parsed ''explanation'') (JStr ''Analysis completed'')),
       (''confidence'', JNum confidence),
       (''model'', JStr (modelName p)),
       (''provider'', JStr (provider_name p))]))))"

definition parse_fallback_response :: "provider \<Rightarrow> jsval" where
  "parse_fallback_response p = JObj [
     (''score'', JNum (Number 0.5)),
     (''label'', JStr ''uncertain''),
     (''reasons'', JArr [JStr ''Analysis failed - unable to parse response'']),
     (''explanation'', JStr ''Unable to analyze content due to processing error''),
     (''confidence'', JNum (Number 0.1)),
     (''model'', JStr (modelName p)),
     (''provider'', JStr (provider_name p))]"

text \<open>
  The body of the \<open>try\<close> of \<open>parseAnalysisResponse\<close>. It has no effect, so it is a function
  of the reply alone; \<open>Inl\<close> is the exception it throws.
\<close>

definition parseAnalysisResponse_body :: "js_runtime \<Rightarrow> provider \<Rightarrow> jsval \<Rightarrow> js_error + jsval" where
  "parseAnalysisResponse_body rt p data =
     sum_bind (response_content (cls p) data) (\<lambda>content.
     if \<not> truthy content
     then Inl (Error (''No content in '' @ class_label (cls p) @ '' response''))
     else sum_bind (content_match content) (\<lambda>jsonMatch.
       case jsonMatch of
         None \<Rightarrow> Inl (Error (''No JSON found in '' @ class_label (cls p) @ '' response''))
       | Some m \<Rightarrow>
           sum_bind (JSON_parse_text rt m) (\<lambda>parsed.
           normalized_response rt p parsed)))"

definition parseAnalysisResponse :: "js_runtime \<Rightarrow> provider \<Rightarrow> jsval \<Rightarrow> jsval io" where
  "parseAnalysisResponse rt p data =
     try_catch (lift (parseAnalysisResponse_body rt p data))
       (\<lambda>error.
          bind (logger_error (''Failed to parse '' @ class_label (cls p) @ '' analysis response:''))
            (\<lambda>_. return (parse_fallback_response p)))"

text \<open>\<open>content.trim()\<close>: a TypeError when the content is not a string.\<close>

definition content_trim :: "js_runtime \<Rightarrow> jsval \<Rightarrow> js_error + string" where
  "content_trim rt content =
     (case content of JStr s \<Rightarrow> Inr (String_trim rt s)
      | _ \<Rightarrow> Inl (TypeError ''content.trim is not a function''))"

definition chat_sources :: "provider_class \<Rightarrow> string" where
  "chat_sources c = (case c of GeminiProvider \<Rightarrow> ''Gemini AI Model''
                     | OpenAIProvider \<Rightarrow> ''OpenAI GPT Model'' | LocalProvider \<Rightarrow> [])"

definition parseChatResponse_body :: "js_runtime \<Rightarrow> provider \<Rightarrow> jsval \<Rightarrow> js_error + jsval" where
  "parseChatResponse_body rt p data =
     sum_bind (response_content (cls p) data) (\<lambda>content.
     if \<not> truthy content
     then Inl (Error (''No content in '' @ class_label (cls p) @ '' chat response''))
     else sum_bind (content_trim rt content) (\<lambda>answer.
       Inr (JObj [
         (''answer'', JStr answer),
         (''sources'', JArr [JStr (chat_sources (cls p))]),
         (''model'', JStr (modelName p)),
         (''provider'', JStr (provider_name p)),
         (''confidence'', JNum (Number 0.8))])))"

definition parseChatResponse :: "js_runtime \<Rightarrow> provider \<Rightarrow> jsval \<Rightarrow> jsval io" where
  "parseChatResponse rt p data =
     try_catch (lift (parseChatResponse_body rt p data))
       (\<lambda>error.
          bind (logger_error (''Failed to parse '' @ class_label (cls p) @ '' chat response:''))
            (\<lambda>_. return (JObj [
               (''answer'', JStr ''I apologize, but I encountered an error processing your question. Please try again.''),
               (''sources'', JArr []),
               (''model'', JStr (modelName p)),
               (''provider'', JStr (provider_name p)),
               (''confidence'', JNum (Number 0.1))])))"

subsection \<open>GeminiProvider and OpenAIProvider\<close>

text \<open>
  The two classes have the same methods up to the URL, the path to the text of the reply
  and the name in the log messages, which \<open>provider_url\<close>, \<open>response_content\<close> and
  \<open>class_label\<close> select by class.
\<close>

definition remote_analyzeText :: "js_runtime \<Rightarrow> provider \<Rightarrow> AnalysisRequest \<Rightarrow> jsval io" where
  "remote_analyzeText rt p request =
     (let cacheKey = generateCacheKey rt p (req_text request) ''analysis''
      in bind (cache_get cacheKey) (\<lambda>cached.
         if truthy cached
         then bind (logger_debug (''Using cached '' @ class_label (cls p) @ '' analysis result''))
                (\<lambda>_. return cached)
         else try_catch
           (bind (axios_post (provider_url p)
                    (buildAnalysisPrompt (req_text request) (req_url request))) (\<lambda>data.
            bind (parseAnalysisResponse rt p data) (\<lambda>result.
            bind (cache_set cacheKey result 3600) (\<lambda>_.
            return result))))
           (\<lambda>error.
              bind (logger_error (class_label (cls p) @ '' analysis error:'')) (\<lambda>_.
              throw (Error (class_label (cls p) @ '' analysis failed: '' @ error_message error))))))"

definition remote_chat :: "js_runtime \<Rightarrow> provider \<Rightarrow> ChatRequest \<Rightarrow> jsval io" where
  "remote_chat rt p request =
     (let cacheKey = generateCacheKey rt p (chat_context request @ '':'' @ chat_question request) ''chat''
      in bind (cache_get cacheKey) (\<lambda>cached.
         if truthy cached
         then bind (logger_debug (''Using cached '' @ class_label (cls p) @ '' chat result''))
                (\<lambda>_. return cached)
         else try_catch
           (bind (axios_post (provider_url p)
                    (buildChatPrompt (chat_context request) (chat_question request))) (\<lambda>data.
            bind (parseChatResponse rt p data) (\<lambda>result.
            bind (cache_set cacheKey result 1800) (\<lambda>_.
            return result))))
           (\<lambda>error.
              bind (logger_error (class_label (cls p) @ '' chat error:'')) (\<lambda>_.
              throw (Error (class_label (cls p) @ '' chat failed: '' @ error_message error))))))"

subsection \<open>LocalProvider\<close>

definition local_analyzeText :: "provider \<Rightarrow> AnalysisRequest \<Rightarrow> jsval io" where
  "local_analyzeText p request =
     bind (logger_warn ''Local model provider not implemented yet, using fallback'') (\<lambda>_.
     return (JObj [
       (''score'', JNum (Number 0.5)),
       (''label'', JStr ''uncertain''),
       (''reasons'', JArr [JStr ''Local model not available'']),
       (''explanation'', JStr ''Local model analysis not implemented''),
       (''confidence'', JNum (Number 0.1)),
       (''model'', JStr (modelName p)),
       (''provider'', JStr (provider_name p))]))"

definition local_chat :: "provider \<Rightarrow> ChatRequest \<Rightarrow> jsval io" where
  "local_chat p request =
     bind (logger_warn ''Local model provider not implemented yet, using fallback'') (\<lambda>_.
     return (JObj [
       (''answer'', JStr ''Local model chat not implemented yet. Please use Gemini or OpenAI provider.''),
       (''sources'', JArr []),
       (''model'', JStr (modelName p)),
       (''provider'', JStr (provider_name p)),
       (''confidence'', JNum (Number 0.1))]))"

text \<open>Method dispatch on the class of the instance.\<close>

definition provider_analyzeText :: "js_runtime \<Rightarrow> provider \<Rightarrow> AnalysisRequest \<Rightarrow> jsval io" where
  "provider_analyzeText rt p request =
     (case cls p of LocalProvider \<Rightarrow> local_analyzeText p request
      | _ \<Rightarrow> remote_analyzeText rt p request)"

definition provider_chat :: "js_runtime \<Rightarrow> provider \<Rightarrow> ChatRequest \<Rightarrow> jsval io" where
  "provider_chat rt p request =
     (case cls p of LocalProvider \<Rightarrow> local_chat p request
      | _ \<Rightarrow> remote_chat rt p request)"

subsection \<open>ModelBridge\<close>

record ModelBridge =
  providers :: "string \<Rightarrow> provider option"
  fallbackProvider :: provider

text \<open>Truthiness of an API key: defined and not the empty string.\<close>

definition key_truthy :: "string option \<Rightarrow> bool" where
  "key_truthy k = (case k of None \<Rightarrow> False | Some v \<Rightarrow> v \<noteq> [])"

text \<open>
  The three \<open>new\<close> expressions that can fill the \<open>primary\<close> entry are alternatives of one
  \<open>switch\<close> and get the identity 1; the \<open>new GeminiProvider\<close> of the \<open>fallback\<close> entry
  gets 2 and the \<open>new LocalProvider\<close> of the last resort gets 3.
\<close>

definition initializeProviders :: "Config \<Rightarrow> ModelBridge io" where
  "initializeProviders c =
     bind (lift (getModelConfig c)) (\<lambda>modelConfig.
     let providers1 =
           (if mc_provider modelConfig = ''gemini''
            then (if key_truthy (mc_apiKey modelConfig)
                  then Map.empty(''primary'' \<mapsto> \<lparr>cls = GeminiProvider, apiKey = mc_apiKey modelConfig,
                         modelName = mc_modelName modelConfig, provider_name = ''gemini'', oid = 1\<rparr>)
                  else Map.empty)
            else if mc_provider modelConfig = ''openai''
            then (if key_truthy (mc_apiKey modelConfig)
                  then Map.empty(''primary'' \<mapsto> \<lparr>cls = OpenAIProvider, apiKey = mc_apiKey modelConfig,
                         modelName = mc_modelName modelConfig, provider_name = ''openai'', oid = 1\<rparr>)
                  else Map.empty)
            else if mc_provider modelConfig = ''local''
            then Map.empty(''primary'' \<mapsto> \<lparr>cls = LocalProvider, apiKey = None,
                   modelName = mc_modelName modelConfig, provider_name = ''local'', oid = 1\<rparr>)
            else Map.empty);
         providers2 =
           (if key_truthy (geminiApiKey c) \<and> providers1 ''primary'' = None
            then providers1(''fallback'' \<mapsto> \<lparr>cls = GeminiProvider, apiKey = geminiApiKey c,
                   modelName = ''gemini-free'', provider_name = ''gemini'', oid = 2\<rparr>)
            else providers1);
         fallback =
           (case providers2 ''fallback'' of
              Some f \<Rightarrow> f
            | None \<Rightarrow>
                (case providers2 ''primary'' of
                   Some p \<Rightarrow> p
                 | None \<Rightarrow> \<lparr>cls = LocalProvider, apiKey = None, modelName = ''local'',
                     provider_name = ''local'', oid = 3\<rparr>))
     in bind (logger_info (''Model bridge initialized with primary provider: '' @ mc_provider modelConfig))
          (\<lambda>_. return \<lparr>providers = providers2, fallbackProvider = fallback\<rparr>))"

definition emergency_response :: jsval where
  "emergency_response = JObj [
     (''score'', JNum (Number 0.5)),
     (''label'', JStr ''uncertain''),
     (''reasons'', JArr [JStr ''Model analysis unavailable'']),
     (''explanation'', JStr ''Unable to analyze content - all model providers are unavailable''),
     (''confidence'', JNum (Number 0.1)),
     (''model'', JStr ''fallback''),
     (''provider'', JStr ''fallback'')]"

text \<open>The body of the outer \<open>try\<close> of \<open>ModelBridge.analyzeText\<close>.\<close>

definition primary_analyzeText :: "js_runtime \<Rightarrow> ModelBridge \<Rightarrow> AnalysisRequest \<Rightarrow> jsval io" where
  "primary_analyzeText rt b request =
     (case providers b ''primary'' of
        Some primary \<Rightarrow> provider_analyzeText rt primary request
      | None \<Rightarrow> throw (Error ''No primary provider available''))"

definition ModelBridge_analyzeText :: "js_runtime \<Rightarrow> ModelBridge \<Rightarrow> AnalysisRequest \<Rightarrow> jsval io" where
  "ModelBridge_analyzeText rt b request =
     try_catch (primary_analyzeText rt b request)
       (\<lambda>error.
          bind (logger_warn ''Primary model provider failed, trying fallback:'') (\<lambda>_.
          try_catch (provider_analyzeText rt (fallbackProvider b) request)
            (\<lambda>fallbackError.
               bind (logger_error ''All model providers failed:'') (\<lambda>_.
               return emergency_response))))"

definition emergency_chat_response :: jsval where
  "emergency_chat_response = JObj [
     (''answer'', JStr ''I apologize, but I'm currently unable to process your question. Please try again later.''),
     (''sources'', JArr []),
     (''model'', JStr ''fallback''),
     (''provider'', JStr ''fallback''),
     (''confidence'', JNum (Number 0.1))]"

definition primary_chat :: "js_runtime \<Rightarrow> ModelBridge \<Rightarrow> ChatRequest \<Rightarrow> jsval io" where
  "primary_chat rt b request =
     (case providers b ''primary'' of
        Some primary \<Rightarrow> provider_chat rt primary request
      | None \<Rightarrow> throw (Error ''No primary provider available''))"

definition ModelBridge_chat :: "js_runtime \<Rightarrow> ModelBridge \<Rightarrow> ChatRequest \<Rightarrow> jsval io" where
  "ModelBridge_chat rt b request =
     try_catch (primary_chat rt b request)
       (\<lambda>error.
          bind (logger_warn ''Primary model provider failed for chat, trying fallback:'') (\<lambda>_.
          try_catch (provider_chat rt (fallbackProvider b) request)
            (\<lambda>fallbackError.
               bind (logger_error ''All model providers failed for chat:'') (\<lambda>_.
               return emergency_chat_response))))"


section \<open>Responses and sample inputs\<close>

text \<open>
  The interface \<open>AnalysisResponse\<close> of the source as a predicate on values: \<open>score\<close> and
  \<open>confidence\<close> are numbers, \<open>label\<close> is one of \<open>suspicious\<close>, \<open>clean\<close> and \<open>uncertain\<close>,
  \<open>reasons\<close> is an array of strings, and \<open>explanation\<close>, \<open>model\<close> and \<open>provider\<close> are
  strings.
\<close>

fun isNumber :: "jsval \<Rightarrow> bool" where
  "isNumber (JNum n) = True"
| "isNumber v = False"

fun isString :: "jsval \<Rightarrow> bool" where
  "isString (JStr s) = True"
| "isString v = False"

definition is_AnalysisResponse :: "jsval \<Rightarrow> bool" where
  "is_AnalysisResponse r =
     (isNumber (opt_prop r ''score'')
      \<and> opt_prop r ''label'' \<in> set [JStr ''suspicious'', JStr ''clean'', JStr ''uncertain'']
      \<and> (case opt_prop r ''reasons'' of JArr xs \<Rightarrow> list_all isString xs | _ \<Rightarrow> False)
      \<and> isString (opt_prop r ''explanation'')
      \<and> isNumber (opt_prop r ''confidence'')
      \<and> isString (opt_prop r ''model'')
      \<and> isString (opt_prop r ''provider''))"

text \<open>
  What the program guarantees of a response that it builds itself, by a provider or by the
  bridge: the object has exactly the seven properties of the interface, in the order of
  the source; \<open>score\<close> and \<open>confidence\<close> are numbers that are NaN or lie between 0 and 1;
  \<open>label\<close> and \<open>explanation\<close> are truthy values; \<open>reasons\<close> is an array; \<open>model\<close> and
  \<open>provider\<close> are strings.
\<close>

fun unit_or_NaN :: "jsval \<Rightarrow> bool" where
  "unit_or_NaN (JNum (Number x)) = (0 \<le> x \<and> x \<le> 1)"
| "unit_or_NaN (JNum NaN) = True"
| "unit_or_NaN v = False"

definition built_response :: "jsval \<Rightarrow> bool" where
  "built_response r =
     (case r of
        JObj kvs \<Rightarrow>
          map fst kvs = [''score'', ''label'', ''reasons'', ''explanation'', ''confidence'',
                         ''model'', ''provider'']
          \<and> unit_or_NaN (opt_prop r ''score'')
          \<and> truthy (opt_prop r ''label'')
          \<and> isArray (opt_prop r ''reasons'')
          \<and> truthy (opt_prop r ''explanation'')
          \<and> unit_or_NaN (opt_prop r ''confidence'')
          \<and> isString (opt_prop r ''model'')
          \<and> isString (opt_prop r ''provider'')
      | _ \<Rightarrow> False)"

text \<open>
  Sample inputs for the evaluations below. \<open>sample_runtime\<close> agrees with Node.js on the
  arguments that these evaluations pass to it: \<open>JSON.parse\<close> on the three JSON texts,
  \<open>StringToNumber\<close> on \<open>high\<close>, \<open>trim\<close> on a text of ASCII characters, \<open>parseFloat\<close> on
  \<open>0.3\<close>, \<open>0.7\<close>, \<open>0.8\<close> and \<open>abc\<close>, and the SHA-256 digest on the text of
  \<open>sample_request\<close> and on the context and question of \<open>sample_chat_request\<close> joined by a
  colon.
\<close>

definition is_space :: "char \<Rightarrow> bool" where
  "is_space c = (c \<in> set [CHR '' '', CHR 0x09, CHR 0x0A, CHR 0x0B, CHR 0x0C, CHR 0x0D])"

definition ascii_trim :: "string \<Rightarrow> string" where
  "ascii_trim s = rev (dropWhile is_space (rev (dropWhile is_space s)))"

definition sample_runtime :: js_runtime where
  \<open>sample_runtime = \<lparr>
     JSON_parse = (\<lambda>s.
       if s = ''{"score":"high"}'' then Some (JObj [(''score'', JStr ''high'')])
       else if s = ''{"score":0.9,"label":"phishing"}''
       then Some (JObj [(''score'', JNum (Number 0.9)), (''label'', JStr ''phishing'')])
       else if s = ''{"score":0.9,"label":"suspicious","reasons":["asks for a password"],"explanation":"credential request","confidence":0.8}''
       then Some (JObj [(''score'', JNum (Number 0.9)), (''label'', JStr ''suspicious''),
              (''reasons'', JArr [JStr ''asks for a password'']),
              (''explanation'', JStr ''credential request''),
              (''confidence'', JNum (Number 0.8))])
       else None),
     StringToNumber = (\<lambda>s. if s = [] then Number 0 else NaN),
     ArrayToString = (\<lambda>xs. Some []),
     String_trim = ascii_trim,
     parseFloat = (\<lambda>s. if s = ''0.3'' then Number 0.3 else if s = ''0.7'' then Number 0.7
                        else if s = ''0.8'' then Number 0.8 else NaN),
     sha256_hex = (\<lambda>s.
       if s = ''Your account is locked:Is this phishing?''
       then ''bfbea1774980a6e68c228ea21aea00e99e17c2aa4b77b3642e3d967d8aceab71''
       else ''dffce291bf3b090c1a72837fb98b7028e5a980935406db2d3ae30a8edb861560'') \<rparr>\<close>

definition sample_request :: AnalysisRequest where
  "sample_request = \<lparr>req_text = ''Your account is locked, verify your password now'',
     req_url = None\<rparr>"

definition sample_chat_request :: ChatRequest where
  "sample_chat_request = \<lparr>chat_context = ''Your account is locked'',
     chat_question = ''Is this phishing?'', chat_sessionId = None\<rparr>"

text \<open>The body of a Gemini reply whose first candidate has the given text.\<close>

definition gemini_reply :: "string \<Rightarrow> jsval" where
  "gemini_reply txt =
     JObj [(''candidates'', JArr [JObj [(''content'',
        JObj [(''parts'', JArr [JObj [(''text'', JStr txt)]])])]])]"

definition sample_config :: Config where
  "sample_config = \<lparr>modelProvider = ''gemini'', config_modelName = ''gemini-free'',
     geminiApiKey = Some ''k1'', openaiApiKey = None,
     lowThreshold = Number 0.3, highThreshold = Number 0.7, reportThreshold = Number 0.8\<rparr>"

definition sample_gemini :: provider where
  "sample_gemini = \<lparr>cls = GeminiProvider, apiKey = Some ''k1'', modelName = ''gemini-free'',
     provider_name = ''gemini'', oid = 1\<rparr>"

text \<open>The bridge that \<open>initializeProviders\<close> builds from \<open>sample_config\<close>.\<close>

definition sample_bridge :: ModelBridge where
  "sample_bridge = \<lparr>providers = Map.empty(''primary'' \<mapsto> sample_gemini),
     fallbackProvider = sample_gemini\<rparr>"

text \<open>
  Network scripts: every request times out; every request is answered with status 200 and
  the given body.
\<close>

definition script_timeout :: "nat \<Rightarrow> http_result" where
  "script_timeout n = HttpTimeout"

definition script_reply :: "jsval \<Rightarrow> nat \<Rightarrow> http_result" where
  "script_reply data n = HttpResponse 200 data"

text \<open>
  A world in which Redis is not connected, and one in which it is connected and empty;
  in both the network answers as the script says.
\<close>

definition offline_world :: "(nat \<Rightarrow> http_result) \<Rightarrow> world" where
  "offline_world script = \<lparr>now = 0, redis_open = False, redis_faults = (\<lambda>n. False),
     redis_cmds = 0, redis_store = Map.empty, http_script = script, http_calls = 0,
     trace = []\<rparr>"

definition online_world :: "(nat \<Rightarrow> http_result) \<Rightarrow> world" where
  "online_world script = \<lparr>now = 0, redis_open = True, redis_faults = (\<lambda>n. False),
     redis_cmds = 0, redis_store = Map.empty, http_script = script, http_calls = 0,
     trace = []\<rparr>"

text \<open>A world in which Redis is connected and empty and rejects its third command.\<close>

definition flaky_world :: "(nat \<Rightarrow> http_result) \<Rightarrow> world" where
  "flaky_world script = \<lparr>now = 0, redis_open = True, redis_faults = (\<lambda>n. n = 2),
     redis_cmds = 0, redis_store = Map.empty, http_script = script, http_calls = 0,
     trace = []\<rparr>"

text \<open>
  Replies of the model: one that follows the prompt, one without JSON, one whose score is
  a word, one whose label is none of the three of the prompt.
\<close>

definition good_reply :: jsval where
  \<open>good_reply = gemini_reply ''{"score":0.9,"label":"suspicious","reasons":["asks for a password"],"explanation":"credential request","confidence":0.8}''\<close>

definition prose_reply :: jsval where
  "prose_reply = gemini_reply ''I cannot help with that request.''"

definition word_score_reply :: jsval where
  \<open>word_score_reply = gemini_reply ''{"score":"high"}''\<close>

definition phishing_label_reply :: jsval where
  \<open>phishing_label_reply = gemini_reply ''{"score":0.9,"label":"phishing"}''\<close>

text \<open>
  The responses built from the last two replies, and the second of them as it is read back
  from the cache.
\<close>

definition phishing_label_response :: jsval where
  "phishing_label_response = JObj [
     (''score'', JNum (Number 0.9)),
     (''label'', JStr ''phishing''),
     (''reasons'', JArr []),
     (''explanation'', JStr ''Analysis completed''),
     (''confidence'', JNum (Number 0.5)),
     (''model'', JStr ''gemini-free''),
     (''provider'', JStr ''gemini'')]"

definition nan_score_response :: jsval where
  "nan_score_response = JObj [
     (''score'', JNum NaN),
     (''label'', JStr ''uncertain''),
     (''reasons'', JArr []),
     (''explanation'', JStr ''Analysis completed''),
     (''confidence'', JNum (Number 0.5)),
     (''model'', JStr ''gemini-free''),
     (''provider'', JStr ''gemini'')]"

definition null_score_response :: jsval where
  "null_score_response = JObj [
     (''score'', JNull),
     (''label'', JStr ''uncertain''),
     (''reasons'', JArr []),
     (''explanation'', JStr ''Analysis completed''),
     (''confidence'', JNum (Number 0.5)),
     (''model'', JStr ''gemini-free''),
     (''provider'', JStr ''gemini'')]"

definition good_response :: jsval where
  "good_response = JObj [
     (''score'', JNum (Number 0.9)),
     (''label'', JStr ''suspicious''),
     (''reasons'', JArr [JStr ''asks for a password'']),
     (''explanation'', JStr ''credential request''),
     (''confidence'', JNum (Number 0.8)),
     (''model'', JStr ''gemini-free''),
     (''provider'', JStr ''gemini'')]"

definition sample_key :: string where
  "sample_key = ''analysis:dffce291bf3b090c:gemini-free''"

definition sample_chat_key :: string where
  "sample_chat_key = ''chat:bfbea1774980a6e6:gemini-free''"

definition sample_url :: string where
  "sample_url = ''https://generativelanguage.googleapis.com/v1beta/models/gemini-free:generateContent?key=k1''"

definition sample_prompt :: prompt where
  "sample_prompt = AnalysisPrompt ''Not provided'' ''Your account is locked, verify your password now'' False"

text \<open>
  Two more configurations: OpenAI selected without its key while a Gemini key is present,
  and Gemini selected without any key.
\<close>

definition openai_keyless_config :: Config where
  "openai_keyless_config = \<lparr>modelProvider = ''openai'', config_modelName = ''gpt-4o'',
     geminiApiKey = Some ''k1'', openaiApiKey = None,
     lowThreshold = Number 0.3, highThreshold = Number 0.7, reportThreshold = Number 0.8\<rparr>"

definition keyless_config :: Config where
  "keyless_config = \<lparr>modelProvider = ''gemini'', config_modelName = ''gemini-free'',
     geminiApiKey = None, openaiApiKey = None,
     lowThreshold = Number 0.3, highThreshold = Number 0.7, reportThreshold = Number 0.8\<rparr>"

text \<open>An environment whose \<open>LOW_THRESHOLD\<close> is not a number.\<close>

definition sample_env :: env where
  "sample_env = Map.empty(''JWT_SECRET'' \<mapsto> ''s3cret'', ''DATABASE_URL'' \<mapsto> ''postgres://localhost/db'',
     ''LOW_THRESHOLD'' \<mapsto> ''abc'')"

text \<open>
  What the conditions of the claims mean on the model: \<open>cache_miss\<close> says that
  \<open>cache.get(key)\<close> yields a falsy value, \<open>http_failed\<close> that \<open>axios.post\<close> rejects,
  \<open>redis_healthy\<close> that the client is connected and no command is rejected.
\<close>

definition cache_miss :: "string \<Rightarrow> world \<Rightarrow> bool" where
  "cache_miss key w = (case fst (cache_get key w) of Inr v \<Rightarrow> \<not> truthy v | Inl e \<Rightarrow> True)"

definition http_failed :: "http_result \<Rightarrow> bool" where
  "http_failed r = (case r of HttpTimeout \<Rightarrow> True | HttpNoResponse msg \<Rightarrow> True
                    | HttpResponse status data \<Rightarrow> \<not> (200 \<le> status \<and> status < 300))"

definition redis_healthy :: "world \<Rightarrow> bool" where
  "redis_healthy w = (redis_open w \<and> (\<forall>n. \<not> redis_faults w n))"

text \<open>
  A value that \<open>JSON.stringify\<close> writes as it is: no NaN, no infinity, no negative zero
  and no undefined inside.
\<close>

fun json_clean :: "jsval \<Rightarrow> bool" where
  "json_clean (JNum n) = (case n of Number r \<Rightarrow> True | _ \<Rightarrow> False)"
| "json_clean JUndefined = False"
| "json_clean (JArr xs) = list_all json_clean xs"
| "json_clean (JObj kvs) = list_all (\<lambda>kv. json_clean (snd kv)) kvs"
| "json_clean v = True"

section \<open>Typosquatting edit distance\<close>

text \<open>
  Modelled from the spec: the body of \<open>PhishingDetector.levenshteinDistance\<close> is not among
  the sources (only its declaration in \<open>phishingDetection.d.ts\<close> is). The spec describes it
  as the classic dynamic-programming Levenshtein distance in which an insertion, a deletion
  and a substitution each cost 1; the function below is the recurrence that the table of
  that algorithm tabulates.
\<close>

fun levenshteinDistance :: "string \<Rightarrow> string \<Rightarrow> nat" where
  "levenshteinDistance [] b = length b"
| "levenshteinDistance a [] = length a"
| "levenshteinDistance (x # a) (y # b) =
     min (min (levenshteinDistance a (y # b) + 1) (levenshteinDistance (x # a) b + 1))
         (levenshteinDistance a b + (if x = y then 0 else 1))"

section \<open>Properties of the edit distance\<close>

lemma levenshteinDistance_Nil2: "levenshteinDistance a [] = length a"
  by (cases a) simp_all

lemma levenshteinDistance_sym: "levenshteinDistance a b = levenshteinDistance b a"
proof (induction a b rule: levenshteinDistance.induct)
  case (1 b)
  show ?case by (simp add: levenshteinDistance_Nil2)
next
  case (2 v va)
  show ?case by simp
next
  case (3 x a y b)
  then show ?case by (simp add: min.commute eq_commute [of x y])
qed

lemma levenshteinDistance_refl: "levenshteinDistance a a = 0"
  by (induction a) simp_all

lemma levenshteinDistance_Cons_le:
  "levenshteinDistance (x # a) (x # b) \<le> levenshteinDistance a b"
  by simp

lemma levenshteinDistance_prefix_le:
  "levenshteinDistance (p @ a) (p @ b) \<le> levenshteinDistance a b"
proof (induction p)
  case Nil
  show ?case by simp
next
  case (Cons c p)
  have "levenshteinDistance (c # p @ a) (c # p @ b) \<le> levenshteinDistance (p @ a) (p @ b)"
    by (rule levenshteinDistance_Cons_le)
  with Cons show ?case by simp
qed

lemma levenshteinDistance_zero_iff: "levenshteinDistance a b = 0 \<longleftrightarrow> a = b"
proof (induction a b rule: levenshteinDistance.induct)
  case (1 b)
  show ?case by auto
next
  case (2 v va)
  show ?case by simp
next
  case (3 x a y b)
  then show ?case by (auto simp: min_def split: if_splits)
qed

lemma levenshteinDistance_subst_tail:
  "x \<noteq> y \<Longrightarrow> levenshteinDistance (p @ x # s) (p @ y # s) = 1"
proof -
  assume neq: "x \<noteq> y"
  have "levenshteinDistance (x # s) (y # s) \<le> levenshteinDistance s s + 1"
    using neq by simp
  then have "levenshteinDistance (x # s) (y # s) \<le> 1"
    by (simp add: levenshteinDistance_refl)
  moreover have "levenshteinDistance (p @ x # s) (p @ y # s) \<le> levenshteinDistance (x # s) (y # s)"
    by (rule levenshteinDistance_prefix_le)
  moreover have "levenshteinDistance (p @ x # s) (p @ y # s) \<noteq> 0"
    using neq by (simp add: levenshteinDistance_zero_iff)
  ultimately show ?thesis by linarith
qed

text \<open>
  Claim C9. The edit distance is the unit-cost Levenshtein recurrence (insert, delete and
  substitute each cost 1), it is symmetric in its two arguments, the distance from
  "paypal.com" to "paypa1.com" is 1 and the distance from "paypal.com" to itself is 0.
\<close>

theorem C9_levenshtein_symmetric_and_examples:
  "levenshteinDistance [] b = length b
   \<and> levenshteinDistance a [] = length a
   \<and> levenshteinDistance (x # a) (y # b) =
       Min {levenshteinDistance a (y # b) + 1, levenshteinDistance (x # a) b + 1,
            levenshteinDistance a b + (if x = y then 0 else 1)}
   \<and> levenshteinDistance a b = levenshteinDistance b a
   \<and> levenshteinDistance ''paypal.com'' ''paypa1.com'' = 1
   \<and> levenshteinDistance ''paypal.com'' ''paypal.com'' = 0"
proof -
  have "levenshteinDistance (''paypa'' @ CHR ''l'' # ''.com'') (''paypa'' @ CHR ''1'' # ''.com'') = 1"
    by (rule levenshteinDistance_subst_tail) simp
  then have ex: "levenshteinDistance ''paypal.com'' ''paypa1.com'' = 1"
    by (simp only: append.simps)
  have step: "levenshteinDistance (x # a) (y # b) =
       Min {levenshteinDistance a (y # b) + 1, levenshteinDistance (x # a) b + 1,
            levenshteinDistance a b + (if x = y then 0 else 1)}"
    by (simp only: levenshteinDistance.simps Min_insert finite.intros Min_singleton
        insert_not_empty min.assoc simp_thms)
  show ?thesis
    using ex step levenshteinDistance_sym [of a b] levenshteinDistance_Nil2 [of a]
      levenshteinDistance_refl [of "''paypal.com''"] levenshteinDistance.simps(1) [of b]
    by blast
qed

lemmas io_defs = bind_def return_def throw_def try_catch_def lift_def emit_def sum_bind_def
  logger_debug_def logger_info_def logger_warn_def logger_error_def

lemma js_or_truthy: "truthy b \<Longrightarrow> truthy (js_or a b)"
  by (simp add: js_or_def)

lemma Math_clamp_unit_or_NaN:
  "unit_or_NaN (JNum (Math_max (Number 0) (Math_min (Number 1) n)))"
  by (cases n) (auto simp: Math_max_def Math_min_def)

lemma clamp01_unit_or_NaN: "clamp01 rt v = Inr n \<Longrightarrow> unit_or_NaN (JNum n)"
  by (auto simp: clamp01_def sum_bind_def Math_clamp_unit_or_NaN split: sum.splits)

lemma isArray_empty: "isArray (JArr [])"
  by simp

lemma built_normalized_response:
  "normalized_response rt p parsed = Inr r \<Longrightarrow> built_response r"
  by (auto simp: normalized_response_def built_response_def sum_bind_def js_or_truthy
      clamp01_unit_or_NaN isArray_empty simp del: isArray.simps unit_or_NaN.simps
      split: sum.splits)

lemma built_parse_fallback_response: "built_response (parse_fallback_response p)"
  by (simp add: parse_fallback_response_def built_response_def)

lemma built_emergency_response: "built_response emergency_response"
  by (simp add: emergency_response_def built_response_def)

lemma built_response_defined: "built_response r \<Longrightarrow> r \<noteq> JUndefined"
  by (auto simp: built_response_def)

lemma json_norm_truthy: "built_response r \<Longrightarrow> truthy (json_norm r)"
  by (cases r) (auto simp: built_response_def)

lemma parseAnalysisResponse_result:
  "\<exists>r w'. parseAnalysisResponse rt p data w = (Inr r, w') \<and> built_response r
      \<and> redis_store w' = redis_store w \<and> now w' = now w \<and> redis_open w' = redis_open w
      \<and> redis_faults w' = redis_faults w \<and> redis_cmds w' = redis_cmds w
      \<and> http_script w' = http_script w \<and> http_calls w' = http_calls w"
proof (cases "parseAnalysisResponse_body rt p data")
  case (Inl e)
  then show ?thesis
    by (simp add: parseAnalysisResponse_def io_defs built_parse_fallback_response)
next
  case (Inr r)
  then have "built_response r"
    by (auto simp: parseAnalysisResponse_body_def sum_bind_def built_normalized_response
        split: sum.splits if_splits option.splits)
  then show ?thesis
    using Inr by (simp add: parseAnalysisResponse_def io_defs)
qed

lemma cache_get_result:
  "\<exists>v w1. cache_get key w = (Inr v, w1) \<and> redis_store w1 = redis_store w \<and> now w1 = now w
     \<and> http_script w1 = http_script w \<and> http_calls w1 = http_calls w
     \<and> redis_open w1 = redis_open w \<and> redis_faults w1 = redis_faults w
     \<and> (truthy v \<longrightarrow> (\<exists>expires. redis_store w key = Some (Json v, expires) \<and> now w < expires))"
  by (auto simp: cache_get_def cache_get_body_def getRedisClient_def client_get_def
      redis_command_def JSON_parse_stored_def stored_truthy_def io_defs Let_def
      split: prod.splits sum.splits option.splits redis_value.splits if_splits)

lemma cache_set_result:
  "\<exists>w1. cache_set key r ttl w = (Inr (), w1) \<and> now w1 = now w
     \<and> http_script w1 = http_script w \<and> http_calls w1 = http_calls w
     \<and> redis_open w1 = redis_open w \<and> redis_faults w1 = redis_faults w
     \<and> (redis_store w1 = redis_store w
          \<or> redis_store w1 = (redis_store w)(key \<mapsto> (Json (json_norm r), now w + ttl)))"
  by (auto simp: cache_set_def cache_set_body_def getRedisClient_def client_setEx_def
      redis_command_def JSON_stringify_def io_defs Let_def
      split: prod.splits sum.splits option.splits if_splits)

lemma axios_post_result:
  "\<exists>res. axios_post u body w =
      (res, w\<lparr>http_calls := Suc (http_calls w), trace := trace w @ [HttpPost u body]\<rparr>)"
  by (auto simp: axios_post_def Let_def split: http_result.splits)

lemma axios_post_failure_frame:
  "axios_post u body w = (Inl e, w') \<Longrightarrow> redis_store w' = redis_store w \<and> now w' = now w"
  using axios_post_result [of u body w] by auto

text \<open>
  A result of a provider is a response that it built, or the live entry of the cache under
  the key of the request; a call that fails leaves the store and the clock as they were.
\<close>

lemma remote_analyzeText_result:
  assumes run: "remote_analyzeText rt p request w = (res, w')"
  shows "(\<forall>r. res = Inr r \<longrightarrow>
            built_response r
            \<or> (\<exists>expires. redis_store w (generateCacheKey rt p (req_text request) ''analysis'')
                   = Some (Json r, expires) \<and> now w < expires))
       \<and> (\<forall>e. res = Inl e \<longrightarrow> redis_store w' = redis_store w \<and> now w' = now w)"
proof -
  let ?key = "generateCacheKey rt p (req_text request) ''analysis''"
  obtain cached w1 where get: "cache_get ?key w = (Inr cached, w1)"
    and st1: "redis_store w1 = redis_store w" "now w1 = now w"
    and hit: "truthy cached \<longrightarrow>
        (\<exists>expires. redis_store w ?key = Some (Json cached, expires) \<and> now w < expires)"
    using cache_get_result [of ?key w] by auto
  show ?thesis
  proof (cases "truthy cached")
    case True
    then have "res = Inr cached"
      using run get by (auto simp: remote_analyzeText_def Let_def io_defs)
    then show ?thesis using hit True by auto
  next
    case False
    let ?w2 = "w1\<lparr>http_calls := Suc (http_calls w1),
             trace := trace w1 @ [HttpPost (provider_url p)
               (buildAnalysisPrompt (req_text request) (req_url request))]\<rparr>"
    obtain r0 where post: "axios_post (provider_url p)
        (buildAnalysisPrompt (req_text request) (req_url request)) w1 = (r0, ?w2)"
      using axios_post_result by blast
    show ?thesis
    proof (cases r0)
      case (Inl e)
      then have "res = Inl (Error (class_label (cls p) @ '' analysis failed: '' @ error_message e))
          \<and> redis_store w' = redis_store ?w2 \<and> now w' = now ?w2"
        using run get False post by (auto simp: remote_analyzeText_def Let_def io_defs)
      then show ?thesis using st1 by auto
    next
      case (Inr data)
      obtain r w3 where parse: "parseAnalysisResponse rt p data ?w2 = (Inr r, w3)"
        and built: "built_response r"
        using parseAnalysisResponse_result [of rt p data ?w2] by auto
      obtain w4 where set: "cache_set ?key r 3600 w3 = (Inr (), w4)"
        using cache_set_result [of ?key r 3600 w3] by auto
      have "res = Inr r"
        using run get False post Inr parse set
        by (auto simp: remote_analyzeText_def Let_def io_defs)
      then show ?thesis using built by simp
    qed
  qed
qed

lemma local_analyzeText_result:
  "local_analyzeText p request w = (res, w') \<Longrightarrow> \<exists>r. res = Inr r \<and> built_response r"
  by (auto simp: local_analyzeText_def io_defs built_response_def)

lemma provider_analyzeText_result:
  assumes "provider_analyzeText rt p request w = (res, w')"
  shows "(\<forall>r. res = Inr r \<longrightarrow>
            built_response r
            \<or> (\<exists>expires. redis_store w (generateCacheKey rt p (req_text request) ''analysis'')
                   = Some (Json r, expires) \<and> now w < expires))
       \<and> (\<forall>e. res = Inl e \<longrightarrow> redis_store w' = redis_store w \<and> now w' = now w)"
proof (cases "cls p = LocalProvider")
  case True
  then have "local_analyzeText p request w = (res, w')"
    using assms by (simp add: provider_analyzeText_def)
  from local_analyzeText_result [OF this] show ?thesis by auto
next
  case False
  then have "remote_analyzeText rt p request w = (res, w')"
    using assms by (cases "cls p") (simp_all add: provider_analyzeText_def)
  from remote_analyzeText_result [OF this] show ?thesis .
qed

lemma cache_set_never_throws: "\<exists>w'. cache_set key v ttl w = (Inr (), w')"
  by (auto simp: cache_set_def io_defs split: prod.splits sum.splits)

lemma cache_delete_never_throws: "\<exists>w'. cache_delete key w = (Inr (), w')"
  by (auto simp: cache_delete_def io_defs split: prod.splits sum.splits)

lemma cache_get_never_throws: "\<exists>v w'. cache_get key w = (Inr v, w')"
  by (auto simp: cache_get_def io_defs split: prod.splits sum.splits)

lemma cache_get_miss:
  "redis_open w \<Longrightarrow> \<not> redis_faults w (redis_cmds w) \<Longrightarrow> redis_store w key = None \<Longrightarrow>
   fst (cache_get key w) = Inr JNull"
  by (simp add: cache_get_def cache_get_body_def getRedisClient_def client_get_def
      redis_command_def stored_truthy_def io_defs Let_def)

text \<open>
  Claim C7. The three operations of the cache are best-effort. Whatever makes the body of
  \<open>cache.get\<close> fail (the client is not connected, the command is rejected, the stored
  text is not JSON), the failure is logged and \<open>cache.get\<close> returns null, as it does for
  a key that is not stored; whatever makes the body of \<open>cache.set\<close> or \<open>cache.delete\<close>
  fail, the failure is logged and the operation returns normally. None of the three ever
  raises.
\<close>

theorem C7_cache_operations_best_effort:
  "(\<forall>e w1. cache_get_body key w = (Inl e, w1) \<longrightarrow>
       cache_get key w = (Inr JNull, w1\<lparr>trace := trace w1 @ [LogError ''Cache get error:'']\<rparr>))
   \<and> (\<exists>x w'. cache_get key w = (Inr x, w'))
   \<and> (redis_open w \<and> \<not> redis_faults w (redis_cmds w) \<and> redis_store w key = None \<longrightarrow>
        fst (cache_get key w) = Inr JNull)
   \<and> (\<forall>e w1. cache_set_body key v ttl w = (Inl e, w1) \<longrightarrow>
       cache_set key v ttl w = (Inr (), w1\<lparr>trace := trace w1 @ [LogError ''Cache set error:'']\<rparr>))
   \<and> (\<exists>w'. cache_set key v ttl w = (Inr (), w'))
   \<and> (\<forall>e w1. cache_delete_body key w = (Inl e, w1) \<longrightarrow>
       cache_delete key w = (Inr (), w1\<lparr>trace := trace w1 @ [LogError ''Cache delete error:'']\<rparr>))
   \<and> (\<exists>w'. cache_delete key w = (Inr (), w'))"
proof (intro conjI)
  show "\<forall>e w1. cache_get_body key w = (Inl e, w1) \<longrightarrow>
       cache_get key w = (Inr JNull, w1\<lparr>trace := trace w1 @ [LogError ''Cache get error:'']\<rparr>)"
    by (simp add: cache_get_def io_defs)
  show "\<exists>x w'. cache_get key w = (Inr x, w')"
    by (rule cache_get_never_throws)
  show "redis_open w \<and> \<not> redis_faults w (redis_cmds w) \<and> redis_store w key = None \<longrightarrow>
        fst (cache_get key w) = Inr JNull"
    using cache_get_miss by blast
  show "\<forall>e w1. cache_set_body key v ttl w = (Inl e, w1) \<longrightarrow>
       cache_set key v ttl w = (Inr (), w1\<lparr>trace := trace w1 @ [LogError ''Cache set error:'']\<rparr>)"
    by (simp add: cache_set_def io_defs)
  show "\<exists>w'. cache_set key v ttl w = (Inr (), w')"
    by (rule cache_set_never_throws)
  show "\<forall>e w1. cache_delete_body key w = (Inl e, w1) \<longrightarrow>
       cache_delete key w = (Inr (), w1\<lparr>trace := trace w1 @ [LogError ''Cache delete error:'']\<rparr>)"
    by (simp add: cache_delete_def io_defs)
  show "\<exists>w'. cache_delete key w = (Inr (), w')"
    by (rule cache_delete_never_throws)
qed

lemmas redis_defs = cache_get_def cache_get_body_def cache_set_def cache_set_body_def
  cache_delete_def cache_delete_body_def getRedisClient_def client_get_def client_setEx_def
  client_del_def redis_command_def JSON_parse_stored_def JSON_stringify_def stored_truthy_def

theorem C7_cache_operations_best_effort_witness:
  "cache_get_body ''k'' (offline_world script_timeout)
     = (Inl (Error ''Redis not connected. Call connectRedis() first.''),
        offline_world script_timeout)
   \<and> cache_get ''k'' (offline_world script_timeout)
     = (Inr JNull, (offline_world script_timeout)\<lparr>trace := [LogError ''Cache get error:'']\<rparr>)
   \<and> redis_open (online_world script_timeout)
   \<and> \<not> redis_faults (online_world script_timeout) (redis_cmds (online_world script_timeout))
   \<and> redis_store (online_world script_timeout) ''k'' = None
   \<and> fst (cache_get ''k'' (online_world script_timeout)) = Inr JNull
   \<and> cache_set_body ''k'' JNull 60 (offline_world script_timeout)
     = (Inl (Error ''Redis not connected. Call connectRedis() first.''),
        offline_world script_timeout)
   \<and> cache_set ''k'' JNull 60 (offline_world script_timeout)
     = (Inr (), (offline_world script_timeout)\<lparr>trace := [LogError ''Cache set error:'']\<rparr>)
   \<and> cache_delete_body ''k'' (offline_world script_timeout)
     = (Inl (Error ''Redis not connected. Call connectRedis() first.''),
        offline_world script_timeout)
   \<and> cache_delete ''k'' (offline_world script_timeout)
     = (Inr (), (offline_world script_timeout)\<lparr>trace := [LogError ''Cache delete error:'']\<rparr>)"
  using C7_cache_operations_best_effort
    [of "''k''" "offline_world script_timeout" JNull 60]
    C7_cache_operations_best_effort
    [of "''k''" "online_world script_timeout" JNull 60]
  by (simp add: redis_defs io_defs offline_world_def online_world_def script_timeout_def Let_def)

lemma ModelBridge_analyzeText_on_double_failure:
  "primary_analyzeText rt b request w = (Inl e, w1) \<Longrightarrow>
   provider_analyzeText rt (fallbackProvider b) request
     (w1\<lparr>trace := trace w1 @ [LogWarn ''Primary model provider failed, trying fallback:'']\<rparr>)
     = (Inl e2, w2) \<Longrightarrow>
   ModelBridge_analyzeText rt b request w =
     (Inr emergency_response, w2\<lparr>trace := trace w2 @ [LogError ''All model providers failed:'']\<rparr>)"
  by (simp add: ModelBridge_analyzeText_def io_defs)

lemma primary_analyzeText_result:
  assumes "primary_analyzeText rt b request w = (res, w')"
  shows "(\<forall>r. res = Inr r \<longrightarrow>
            built_response r
            \<or> (\<exists>p expires. providers b ''primary'' = Some p
                 \<and> redis_store w (generateCacheKey rt p (req_text request) ''analysis'')
                     = Some (Json r, expires) \<and> now w < expires))
       \<and> (\<forall>e. res = Inl e \<longrightarrow> redis_store w' = redis_store w \<and> now w' = now w)"
proof (cases "providers b ''primary''")
  case None
  then show ?thesis using assms by (auto simp: primary_analyzeText_def io_defs)
next
  case (Some p)
  then have "provider_analyzeText rt p request w = (res, w')"
    using assms by (simp add: primary_analyzeText_def)
  from provider_analyzeText_result [OF this] show ?thesis using Some by auto
qed

lemma ModelBridge_analyzeText_result:
  assumes run: "ModelBridge_analyzeText rt b request w = (res, w')"
  shows "\<exists>r. res = Inr r
      \<and> (built_response r
         \<or> (\<exists>p expires. (providers b ''primary'' = Some p \<or> p = fallbackProvider b)
              \<and> redis_store w (generateCacheKey rt p (req_text request) ''analysis'')
                  = Some (Json r, expires)
              \<and> now w < expires))"
proof -
  obtain r1 w1 where prim: "primary_analyzeText rt b request w = (r1, w1)"
    by (cases "primary_analyzeText rt b request w")
  note p1 = primary_analyzeText_result [OF prim]
  show ?thesis
  proof (cases r1)
    case (Inr r)
    then have "res = Inr r" using run prim by (simp add: ModelBridge_analyzeText_def io_defs)
    then show ?thesis using p1 Inr by auto
  next
    case (Inl e)
    let ?w2 = "w1\<lparr>trace := trace w1 @ [LogWarn ''Primary model provider failed, trying fallback:'']\<rparr>"
    have same: "redis_store ?w2 = redis_store w" "now ?w2 = now w"
      using p1 Inl by simp_all
    obtain r2 w3 where fb: "provider_analyzeText rt (fallbackProvider b) request ?w2 = (r2, w3)"
      by (cases "provider_analyzeText rt (fallbackProvider b) request ?w2")
    note p2 = provider_analyzeText_result [OF fb]
    show ?thesis
    proof (cases r2)
      case (Inr r)
      then have "res = Inr r"
        using run prim Inl fb by (simp add: ModelBridge_analyzeText_def io_defs)
      moreover have "built_response r
          \<or> (\<exists>expires. redis_store w (generateCacheKey rt (fallbackProvider b) (req_text request) ''analysis'')
                = Some (Json r, expires) \<and> now w < expires)"
        using p2 Inr same by simp
      ultimately show ?thesis by blast
    next
      case (Inl e2)
      then have "res = Inr emergency_response"
        using run prim \<open>r1 = Inl e\<close> fb by (simp add: ModelBridge_analyzeText_def io_defs)
      then show ?thesis by (simp add: built_emergency_response)
    qed
  qed
qed

text \<open>
  Claim C1, amended. For every request, bridge and world, \<open>ModelBridge.analyzeText\<close>
  returns a value and raises nothing. The value is a response that a provider or the
  bridge built (an object with the seven properties of \<open>AnalysisResponse\<close>, \<open>score\<close> and
  \<open>confidence\<close> numbers that are NaN or lie between 0 and 1, \<open>label\<close> and \<open>explanation\<close>
  truthy, \<open>reasons\<close> an array, \<open>model\<close> and \<open>provider\<close> strings), or it is the live entry
  of the cache under the key of the request for the primary or the fallback provider,
  returned as it is stored. When the primary call fails and the call of the fallback
  provider fails too, the value is the emergency response (score 0.5, label uncertain,
  confidence 0.1, reason "Model analysis unavailable"), which satisfies the interface.
\<close>

theorem C1_analyzeText_returns_built_or_cached_value:
  "(\<exists>r w'. ModelBridge_analyzeText rt b request w = (Inr r, w')
        \<and> (built_response r
           \<or> (\<exists>p expires. (providers b ''primary'' = Some p \<or> p = fallbackProvider b)
                \<and> redis_store w (generateCacheKey rt p (req_text request) ''analysis'')
                    = Some (Json r, expires)
                \<and> now w < expires)))
   \<and> (\<forall>e w1 e2 w2.
         primary_analyzeText rt b request w = (Inl e, w1)
         \<and> provider_analyzeText rt (fallbackProvider b) request
              (w1\<lparr>trace := trace w1 @ [LogWarn ''Primary model provider failed, trying fallback:'']\<rparr>)
            = (Inl e2, w2)
         \<longrightarrow> ModelBridge_analyzeText rt b request w =
              (Inr emergency_response,
               w2\<lparr>trace := trace w2 @ [LogError ''All model providers failed:'']\<rparr>))
   \<and> opt_prop emergency_response ''score'' = JNum (Number 0.5)
   \<and> opt_prop emergency_response ''label'' = JStr ''uncertain''
   \<and> opt_prop emergency_response ''confidence'' = JNum (Number 0.1)
   \<and> opt_prop emergency_response ''reasons'' = JArr [JStr ''Model analysis unavailable'']
   \<and> is_AnalysisResponse emergency_response"
proof (intro conjI)
  obtain res w' where run: "ModelBridge_analyzeText rt b request w = (res, w')"
    by (cases "ModelBridge_analyzeText rt b request w")
  from ModelBridge_analyzeText_result [OF run] run
  show "\<exists>r w'. ModelBridge_analyzeText rt b request w = (Inr r, w')
        \<and> (built_response r
           \<or> (\<exists>p expires. (providers b ''primary'' = Some p \<or> p = fallbackProvider b)
                \<and> redis_store w (generateCacheKey rt p (req_text request) ''analysis'')
                    = Some (Json r, expires)
                \<and> now w < expires))"
    by blast
  show "\<forall>e w1 e2 w2.
         primary_analyzeText rt b request w = (Inl e, w1)
         \<and> provider_analyzeText rt (fallbackProvider b) request
              (w1\<lparr>trace := trace w1 @ [LogWarn ''Primary model provider failed, trying fallback:'']\<rparr>)
            = (Inl e2, w2)
         \<longrightarrow> ModelBridge_analyzeText rt b request w =
              (Inr emergency_response,
               w2\<lparr>trace := trace w2 @ [LogError ''All model providers failed:'']\<rparr>)"
    using ModelBridge_analyzeText_on_double_failure by blast
qed (simp_all add: emergency_response_def is_AnalysisResponse_def)

lemmas provider_defs = provider_analyzeText_def remote_analyzeText_def local_analyzeText_def
  generateCacheKey_def cache_generateKey_def buildAnalysisPrompt_def provider_url_def
  class_label_def key_string_def error_message_def axios_post_def
  parseAnalysisResponse_def parseAnalysisResponse_body_def response_content_def
  content_match_def match_braces_def JSON_parse_text_def normalized_response_def clamp01_def
  Math_min_def Math_max_def parse_fallback_response_def get_prop_def js_or_def

lemmas sample_defs = sample_runtime_def sample_request_def sample_gemini_def sample_bridge_def
  sample_key_def sample_url_def sample_prompt_def good_reply_def prose_reply_def
  word_score_reply_def phishing_label_reply_def gemini_reply_def good_response_def
  phishing_label_response_def nan_score_response_def null_score_response_def script_timeout_def script_reply_def
  offline_world_def online_world_def flaky_world_def

lemmas eval_defs = provider_defs redis_defs io_defs sample_defs cache_miss_def redis_healthy_def
  advance_def opt_prop.simps opt_index0.simps Let_def

theorem C1_analyzeText_returns_built_or_cached_value_witness:
  "primary_analyzeText sample_runtime sample_bridge sample_request (offline_world script_timeout)
     = (Inl (Error ''Gemini analysis failed: timeout of 30000ms exceeded''),
        (offline_world script_timeout)\<lparr>http_calls := 1,
           trace := [LogError ''Cache get error:'', HttpPost sample_url sample_prompt,
             LogError ''Gemini analysis error:'']\<rparr>)
   \<and> provider_analyzeText sample_runtime (fallbackProvider sample_bridge) sample_request
        ((offline_world script_timeout)\<lparr>http_calls := 1,
           trace := [LogError ''Cache get error:'', HttpPost sample_url sample_prompt,
             LogError ''Gemini analysis error:'',
             LogWarn ''Primary model provider failed, trying fallback:'']\<rparr>)
     = (Inl (Error ''Gemini analysis failed: timeout of 30000ms exceeded''),
        (offline_world script_timeout)\<lparr>http_calls := 2,
           trace := [LogError ''Cache get error:'', HttpPost sample_url sample_prompt,
             LogError ''Gemini analysis error:'',
             LogWarn ''Primary model provider failed, trying fallback:'',
             LogError ''Cache get error:'', HttpPost sample_url sample_prompt,
             LogError ''Gemini analysis error:'']\<rparr>)
   \<and> ModelBridge_analyzeText sample_runtime sample_bridge sample_request (offline_world script_timeout)
     = (Inr emergency_response,
        (offline_world script_timeout)\<lparr>http_calls := 2,
           trace := [LogError ''Cache get error:'', HttpPost sample_url sample_prompt,
             LogError ''Gemini analysis error:'',
             LogWarn ''Primary model provider failed, trying fallback:'',
             LogError ''Cache get error:'', HttpPost sample_url sample_prompt,
             LogError ''Gemini analysis error:'',
             LogError ''All model providers failed:'']\<rparr>)
   \<and> built_response emergency_response"
  using C1_analyzeText_returns_built_or_cached_value
    [of sample_runtime sample_bridge sample_request "offline_world script_timeout"]
  by (simp add: ModelBridge_analyzeText_def primary_analyzeText_def provider_defs redis_defs
      io_defs offline_world_def script_timeout_def sample_url_def sample_prompt_def sample_bridge_def
      sample_gemini_def sample_request_def sample_runtime_def built_emergency_response Let_def)

text \<open>
  The claim C1 as stated fails for the part "well-formed AnalysisResponse". A reply whose
  label is "phishing" is answered with that label, which is none of the three of the
  interface. A reply whose score is a word is answered with the score NaN, the cache holds
  it as null, and the identical call 10 seconds later returns the entry as stored, with
  the score null.
\<close>

theorem C1_value_outside_the_interface_counterexample:
  "ModelBridge_analyzeText sample_runtime sample_bridge sample_request
      (online_world (script_reply phishing_label_reply))
    = (Inr phishing_label_response,
       (online_world (script_reply phishing_label_reply))\<lparr>redis_cmds := 2, http_calls := 1,
          redis_store := Map.empty(sample_key \<mapsto> (Json phishing_label_response, 3600)),
          trace := [RedisGet sample_key, HttpPost sample_url sample_prompt,
            RedisSetEx sample_key 3600 (Json phishing_label_response)]\<rparr>)
   \<and> \<not> is_AnalysisResponse phishing_label_response
   \<and> ModelBridge_analyzeText sample_runtime sample_bridge sample_request
      (online_world (script_reply word_score_reply))
    = (Inr nan_score_response,
       (online_world (script_reply word_score_reply))\<lparr>redis_cmds := 2, http_calls := 1,
          redis_store := Map.empty(sample_key \<mapsto> (Json null_score_response, 3600)),
          trace := [RedisGet sample_key, HttpPost sample_url sample_prompt,
            RedisSetEx sample_key 3600 (Json null_score_response)]\<rparr>)
   \<and> ModelBridge_analyzeText sample_runtime sample_bridge sample_request
      (advance 10 ((online_world (script_reply word_score_reply))\<lparr>redis_cmds := 2, http_calls := 1,
          redis_store := Map.empty(sample_key \<mapsto> (Json null_score_response, 3600)),
          trace := [RedisGet sample_key, HttpPost sample_url sample_prompt,
            RedisSetEx sample_key 3600 (Json null_score_response)]\<rparr>))
    = (Inr null_score_response,
       (online_world (script_reply word_score_reply))\<lparr>now := 10, redis_cmds := 3, http_calls := 1,
          redis_store := Map.empty(sample_key \<mapsto> (Json null_score_response, 3600)),
          trace := [RedisGet sample_key, HttpPost sample_url sample_prompt,
            RedisSetEx sample_key 3600 (Json null_score_response),
            RedisGet sample_key, LogDebug ''Using cached Gemini analysis result'']\<rparr>)
   \<and> \<not> is_AnalysisResponse null_score_response"
  by (simp add: ModelBridge_analyzeText_def primary_analyzeText_def eval_defs
      is_AnalysisResponse_def)

lemma json_norm_clean: "json_clean v \<Longrightarrow> json_norm v = v"
proof (induction v rule: json_norm.induct)
  case (3 xs)
  then show ?case by (auto simp: list_all_iff intro: map_idI)
next
  case (4 kvs)
  have "filter (\<lambda>kv. snd kv \<noteq> JUndefined) kvs = kvs"
    using 4(2) by (auto simp: list_all_iff filter_id_conv)
  moreover have "\<And>kv. kv \<in> set kvs \<Longrightarrow> json_norm (snd kv) = snd kv"
  proof -
    fix kv assume kv: "kv \<in> set kvs"
    then have c: "json_clean (snd kv)" using 4(2) by (simp add: list_all_iff)
    then have "snd kv \<noteq> JUndefined" by auto
    then show "json_norm (snd kv) = snd kv" using 4(1) [of kv] kv c by simp
  qed
  then have "map (\<lambda>kv. (fst kv, json_norm (snd kv))) kvs = kvs"
    by (intro map_idI) simp
  ultimately show ?case by simp
next
  case (1 n)
  then show ?case by (cases n) simp_all
qed simp_all

lemma axios_post_ok:
  "http_script w (http_calls w) = HttpResponse status data \<Longrightarrow> 200 \<le> status \<Longrightarrow> status < 300 \<Longrightarrow>
   axios_post u body w =
     (Inr data, w\<lparr>http_calls := Suc (http_calls w), trace := trace w @ [HttpPost u body]\<rparr>)"
  by (simp add: axios_post_def Let_def)

lemma axios_post_failed:
  "http_failed (http_script w (http_calls w)) \<Longrightarrow>
   \<exists>e. axios_post u body w =
     (Inl e, w\<lparr>http_calls := Suc (http_calls w), trace := trace w @ [HttpPost u body]\<rparr>)"
  by (auto simp: axios_post_def http_failed_def Let_def split: http_result.splits)

lemma cache_get_healthy_frame:
  "redis_healthy w \<Longrightarrow>
   \<exists>v w1. cache_get key w = (Inr v, w1) \<and> redis_healthy w1 \<and> redis_store w1 = redis_store w
     \<and> now w1 = now w \<and> http_script w1 = http_script w \<and> http_calls w1 = http_calls w"
  using cache_get_result [of key w] by (auto simp: redis_healthy_def)

lemma cache_get_healthy_hit:
  "redis_healthy w \<Longrightarrow> redis_store w key = Some (Json v, expires) \<Longrightarrow> now w < expires \<Longrightarrow>
   cache_get key w =
     (Inr v, w\<lparr>redis_cmds := Suc (redis_cmds w), trace := trace w @ [RedisGet key]\<rparr>)"
  by (simp add: redis_defs io_defs redis_healthy_def Let_def)

lemma cache_set_healthy:
  "redis_healthy w \<Longrightarrow> r \<noteq> JUndefined \<Longrightarrow>
   cache_set key r ttl w =
     (Inr (), w\<lparr>redis_cmds := Suc (redis_cmds w),
        trace := trace w @ [RedisSetEx key ttl (Json (json_norm r))],
        redis_store := (redis_store w)(key \<mapsto> (Json (json_norm r), now w + ttl))\<rparr>)"
  by (simp add: redis_defs io_defs redis_healthy_def Let_def)

lemma remote_analyzeText_on_miss:
  "cache_miss (generateCacheKey rt p (req_text request) ''analysis'') w \<Longrightarrow>
   remote_analyzeText rt p request w =
     try_catch
       (bind (axios_post (provider_url p) (buildAnalysisPrompt (req_text request) (req_url request)))
          (\<lambda>data. bind (parseAnalysisResponse rt p data)
          (\<lambda>result. bind (cache_set (generateCacheKey rt p (req_text request) ''analysis'') result 3600)
          (\<lambda>_. return result))))
       (\<lambda>error. bind (logger_error (class_label (cls p) @ '' analysis error:''))
          (\<lambda>_. throw (Error (class_label (cls p) @ '' analysis failed: '' @ error_message error))))
       (snd (cache_get (generateCacheKey rt p (req_text request) ''analysis'') w))"
  using cache_get_never_throws [of "generateCacheKey rt p (req_text request) ''analysis''" w]
  by (auto simp: remote_analyzeText_def cache_miss_def Let_def bind_def)

lemma remote_chat_on_miss:
  "cache_miss (generateCacheKey rt p (chat_context request @ '':'' @ chat_question request) ''chat'') w \<Longrightarrow>
   remote_chat rt p request w =
     try_catch
       (bind (axios_post (provider_url p) (buildChatPrompt (chat_context request) (chat_question request)))
          (\<lambda>data. bind (parseChatResponse rt p data)
          (\<lambda>result. bind (cache_set (generateCacheKey rt p (chat_context request @ '':'' @ chat_question request) ''chat'') result 1800)
          (\<lambda>_. return result))))
       (\<lambda>error. bind (logger_error (class_label (cls p) @ '' chat error:''))
          (\<lambda>_. throw (Error (class_label (cls p) @ '' chat failed: '' @ error_message error))))
       (snd (cache_get (generateCacheKey rt p (chat_context request @ '':'' @ chat_question request) ''chat'') w))"
  using cache_get_never_throws [of "generateCacheKey rt p (chat_context request @ '':'' @ chat_question request) ''chat''" w]
  by (auto simp: remote_chat_def cache_miss_def Let_def bind_def)

lemma parseChatResponse_result:
  "\<exists>r w'. parseChatResponse rt p data w = (Inr r, w') \<and> r \<noteq> JUndefined
      \<and> redis_store w' = redis_store w \<and> now w' = now w \<and> redis_open w' = redis_open w
      \<and> redis_faults w' = redis_faults w \<and> redis_cmds w' = redis_cmds w
      \<and> http_script w' = http_script w \<and> http_calls w' = http_calls w"
  by (auto simp: parseChatResponse_def parseChatResponse_body_def io_defs
      split: prod.splits sum.splits option.splits if_splits)

lemma parseAnalysisResponse_trace:
  "\<exists>evs. trace (snd (parseAnalysisResponse rt p data w)) = trace w @ evs"
  by (cases "parseAnalysisResponse_body rt p data") (simp_all add: parseAnalysisResponse_def io_defs)

lemma cache_get_trace: "\<exists>evs. trace (snd (cache_get key w)) = trace w @ evs"
  by (simp add: redis_defs io_defs Let_def
      split: if_splits prod.splits sum.splits option.splits redis_value.splits)

text \<open>The first call of a remote provider on a miss, with Redis healthy and the network answering 2xx.\<close>

lemma remote_analyzeText_first_call:
  assumes healthy: "redis_healthy w"
    and miss: "cache_miss (generateCacheKey rt p (req_text request) ''analysis'') w"
    and http: "http_script w (http_calls w) = HttpResponse status data" "200 \<le> status" "status < 300"
  shows "\<exists>r1 w1 w0 w2. remote_analyzeText rt p request w = (Inr r1, w1)
      \<and> parseAnalysisResponse rt p data w0 = (Inr r1, w2)
      \<and> built_response r1 \<and> redis_healthy w1 \<and> now w1 = now w
      \<and> http_calls w1 = Suc (http_calls w) \<and> http_script w1 = http_script w
      \<and> redis_store w1 = (redis_store w)(generateCacheKey rt p (req_text request) ''analysis''
            \<mapsto> (Json (json_norm r1), now w + 3600))
      \<and> (\<exists>evs. trace w1 = trace w @ evs @
            [RedisSetEx (generateCacheKey rt p (req_text request) ''analysis'') 3600 (Json (json_norm r1))])"
proof -
  let ?key = "generateCacheKey rt p (req_text request) ''analysis''"
  let ?u = "provider_url p"
  let ?body = "buildAnalysisPrompt (req_text request) (req_url request)"
  obtain c wa where get: "cache_get ?key w = (Inr c, wa)" and ha: "redis_healthy wa"
    and sa: "redis_store wa = redis_store w" "now wa = now w" "http_script wa = http_script w"
       "http_calls wa = http_calls w"
    using cache_get_healthy_frame [OF healthy, of ?key] by blast
  obtain ev0 where ta: "trace wa = trace w @ ev0"
    using cache_get_trace [of ?key w] get by auto
  let ?wb = "wa\<lparr>http_calls := Suc (http_calls wa), trace := trace wa @ [HttpPost ?u ?body]\<rparr>"
  have post: "axios_post ?u ?body wa = (Inr data, ?wb)"
    using http sa by (intro axios_post_ok) simp_all
  obtain r1 wc where parse: "parseAnalysisResponse rt p data ?wb = (Inr r1, wc)"
    and wf: "built_response r1"
    and sc: "redis_store wc = redis_store ?wb" "now wc = now ?wb" "redis_open wc = redis_open ?wb"
      "redis_faults wc = redis_faults ?wb" "http_script wc = http_script ?wb"
      "http_calls wc = http_calls ?wb"
    using parseAnalysisResponse_result [of rt p data ?wb] by blast
  obtain ev1 where tc: "trace wc = trace ?wb @ ev1"
    using parseAnalysisResponse_trace [of rt p data ?wb] parse by auto
  have hc: "redis_healthy wc"
    using ha sc by (simp add: redis_healthy_def)
  let ?wd = "wc\<lparr>redis_cmds := Suc (redis_cmds wc),
        trace := trace wc @ [RedisSetEx ?key 3600 (Json (json_norm r1))],
        redis_store := (redis_store wc)(?key \<mapsto> (Json (json_norm r1), now wc + 3600))\<rparr>"
  have set: "cache_set ?key r1 3600 wc = (Inr (), ?wd)"
    using cache_set_healthy [OF hc built_response_defined [OF wf]] .
  have run: "remote_analyzeText rt p request w = (Inr r1, ?wd)"
    using remote_analyzeText_on_miss [OF miss] get post parse set
    by (simp add: io_defs)
  have "redis_healthy ?wd" using hc by (simp add: redis_healthy_def)
  moreover have "trace ?wd = trace w @ (ev0 @ [HttpPost ?u ?body] @ ev1) @
      [RedisSetEx ?key 3600 (Json (json_norm r1))]"
    using ta tc by simp
  ultimately show ?thesis
    using run parse wf sa sc by (intro exI conjI) (assumption | simp)+
qed

lemma remote_analyzeText_on_hit:
  assumes "redis_healthy w" "redis_store w (generateCacheKey rt p (req_text request) ''analysis'') = Some (Json v, expires)"
    "now w < expires" "truthy v"
  shows "remote_analyzeText rt p request w =
     (Inr v, w\<lparr>redis_cmds := Suc (redis_cmds w),
        trace := trace w @ [RedisGet (generateCacheKey rt p (req_text request) ''analysis''),
          LogDebug (''Using cached '' @ class_label (cls p) @ '' analysis result'')]\<rparr>)"
  using cache_get_healthy_hit [OF assms(1,2,3)] assms(4)
  by (simp add: remote_analyzeText_def Let_def io_defs)

lemma provider_analyzeText_remote:
  "cls p \<noteq> LocalProvider \<Longrightarrow> provider_analyzeText rt p = remote_analyzeText rt p"
  by (cases "cls p") (auto simp: provider_analyzeText_def)

lemma provider_chat_remote:
  "cls p \<noteq> LocalProvider \<Longrightarrow> provider_chat rt p = remote_chat rt p"
  by (cases "cls p") (auto simp: provider_chat_def)

lemma provider_analyzeText_two_calls:
  assumes "cls p \<noteq> LocalProvider"
    and "redis_healthy w"
    and "cache_miss (generateCacheKey rt p (req_text request) ''analysis'') w"
    and "http_script w (http_calls w) = HttpResponse status data"
    and "200 \<le> status" and "status < 300"
    and "d < 3600"
  shows "\<exists>r1 w1.
      provider_analyzeText rt p request w = (Inr r1, w1)
      \<and> http_calls w1 = Suc (http_calls w)
      \<and> generateCacheKey rt p (req_text request) ''analysis''
          = ''analysis:'' @ take 16 (sha256_hex rt (req_text request)) @ '':'' @ modelName p
      \<and> redis_store w1 = (redis_store w)(generateCacheKey rt p (req_text request) ''analysis''
            \<mapsto> (Json (json_norm r1), now w + 3600))
      \<and> provider_analyzeText rt p request (advance d w1) =
           (Inr (json_norm r1),
            (advance d w1)\<lparr>redis_cmds := Suc (redis_cmds w1),
               trace := trace w1 @ [RedisGet (generateCacheKey rt p (req_text request) ''analysis''),
                 LogDebug (''Using cached '' @ class_label (cls p) @ '' analysis result'')]\<rparr>)
      \<and> (json_clean r1 \<longrightarrow> json_norm r1 = r1)"
proof -
  let ?key = "generateCacheKey rt p (req_text request) ''analysis''"
  obtain r1 w1 where run: "remote_analyzeText rt p request w = (Inr r1, w1)"
    and wf: "built_response r1" and h1: "redis_healthy w1" and n1: "now w1 = now w"
    and c1: "http_calls w1 = Suc (http_calls w)"
    and s1: "redis_store w1 = (redis_store w)(?key \<mapsto> (Json (json_norm r1), now w + 3600))"
    using remote_analyzeText_first_call [OF assms(2,3,4,5,6)] by blast
  let ?w2 = "advance d w1"
  have h2: "redis_healthy ?w2" using h1 by (simp add: redis_healthy_def advance_def)
  have st2: "redis_store ?w2 ?key = Some (Json (json_norm r1), now w + 3600)"
    using s1 by (simp add: advance_def)
  have t2: "now ?w2 < now w + 3600" using n1 assms(7) by (simp add: advance_def)
  have second: "remote_analyzeText rt p request ?w2 =
      (Inr (json_norm r1), ?w2\<lparr>redis_cmds := Suc (redis_cmds ?w2),
         trace := trace ?w2 @ [RedisGet ?key,
           LogDebug (''Using cached '' @ class_label (cls p) @ '' analysis result'')]\<rparr>)"
    by (rule remote_analyzeText_on_hit [OF h2 st2 t2 json_norm_truthy [OF wf]])
  have key: "?key = ''analysis:'' @ take 16 (sha256_hex rt (req_text request)) @ '':'' @ modelName p"
    by (simp add: generateCacheKey_def cache_generateKey_def Let_def)
  show ?thesis
    using run c1 s1 second key json_norm_clean [of r1]
    by (simp add: provider_analyzeText_remote [OF assms(1)] advance_def)
qed

text \<open>
  Claim C5, amended. When Redis is connected and accepts every command, the lookup of the
  first call misses and its request is answered with a 2xx status, then the first call of
  a remote provider makes exactly one request and stores the JSON text of its result under
  the key \<open>analysis:<first 16 hex digits of the SHA-256 of the text>:<model>\<close> for 3600
  seconds; an identical call that starts after the first call has returned, less than 3600
  seconds after the entry was stored, makes no request and returns the stored value, which
  is the result of the
  first call whenever that has no NaN, no infinity, no negative zero and no undefined
  inside.
\<close>

theorem C5_second_call_served_from_healthy_cache:
  assumes "cls p \<noteq> LocalProvider"
    and "redis_healthy w"
    and "cache_miss (generateCacheKey rt p (req_text request) ''analysis'') w"
    and "http_script w (http_calls w) = HttpResponse status data"
    and "200 \<le> status" and "status < 300"
    and "d < 3600"
  shows "\<exists>r1 w1.
      provider_analyzeText rt p request w = (Inr r1, w1)
      \<and> http_calls w1 = Suc (http_calls w)
      \<and> generateCacheKey rt p (req_text request) ''analysis''
          = ''analysis:'' @ take 16 (sha256_hex rt (req_text request)) @ '':'' @ modelName p
      \<and> redis_store w1 = (redis_store w)(generateCacheKey rt p (req_text request) ''analysis''
            \<mapsto> (Json (json_norm r1), now w + 3600))
      \<and> provider_analyzeText rt p request (advance d w1) =
           (Inr (json_norm r1),
            (advance d w1)\<lparr>redis_cmds := Suc (redis_cmds w1),
               trace := trace w1 @ [RedisGet (generateCacheKey rt p (req_text request) ''analysis''),
                 LogDebug (''Using cached '' @ class_label (cls p) @ '' analysis result'')]\<rparr>)
      \<and> (json_clean r1 \<longrightarrow> json_norm r1 = r1)"
  using provider_analyzeText_two_calls [OF assms] .

theorem C5_second_call_served_from_healthy_cache_witness:
  "cls sample_gemini \<noteq> LocalProvider
   \<and> redis_healthy (online_world (script_reply good_reply))
   \<and> cache_miss (generateCacheKey sample_runtime sample_gemini (req_text sample_request) ''analysis'')
        (online_world (script_reply good_reply))
   \<and> http_script (online_world (script_reply good_reply))
        (http_calls (online_world (script_reply good_reply))) = HttpResponse 200 good_reply
   \<and> provider_analyzeText sample_runtime sample_gemini sample_request
        (online_world (script_reply good_reply))
      = (Inr good_response,
         (online_world (script_reply good_reply))\<lparr>redis_cmds := 2, http_calls := 1,
            redis_store := Map.empty(sample_key \<mapsto> (Json good_response, 3600)),
            trace := [RedisGet sample_key, HttpPost sample_url sample_prompt,
              RedisSetEx sample_key 3600 (Json good_response)]\<rparr>)
   \<and> provider_analyzeText sample_runtime sample_gemini sample_request
        (advance 10 ((online_world (script_reply good_reply))\<lparr>redis_cmds := 2, http_calls := 1,
            redis_store := Map.empty(sample_key \<mapsto> (Json good_response, 3600)),
            trace := [RedisGet sample_key, HttpPost sample_url sample_prompt,
              RedisSetEx sample_key 3600 (Json good_response)]\<rparr>))
      = (Inr good_response,
         (online_world (script_reply good_reply))\<lparr>now := 10, redis_cmds := 3, http_calls := 1,
            redis_store := Map.empty(sample_key \<mapsto> (Json good_response, 3600)),
            trace := [RedisGet sample_key, HttpPost sample_url sample_prompt,
              RedisSetEx sample_key 3600 (Json good_response), RedisGet sample_key,
              LogDebug ''Using cached Gemini analysis result'']\<rparr>)"
  using C5_second_call_served_from_healthy_cache
    [of sample_gemini "online_world (script_reply good_reply)" sample_runtime sample_request
      200 good_reply 10]
  by (simp add: eval_defs)

text \<open>
  The claim C5 as stated fails when a cache command fails. Here the first call stores its
  result for 3600 seconds; the lookup of the identical call 10 seconds later is rejected
  by Redis, is treated as a miss, and the provider is requested a second time.
\<close>

theorem C5_rejected_lookup_counterexample:
  "provider_analyzeText sample_runtime sample_gemini sample_request
      (flaky_world (script_reply good_reply))
    = (Inr good_response,
       (flaky_world (script_reply good_reply))\<lparr>redis_cmds := 2, http_calls := 1,
          redis_store := Map.empty(sample_key \<mapsto> (Json good_response, 3600)),
          trace := [RedisGet sample_key, HttpPost sample_url sample_prompt,
            RedisSetEx sample_key 3600 (Json good_response)]\<rparr>)
   \<and> provider_analyzeText sample_runtime sample_gemini sample_request
      (advance 10 ((flaky_world (script_reply good_reply))\<lparr>redis_cmds := 2, http_calls := 1,
          redis_store := Map.empty(sample_key \<mapsto> (Json good_response, 3600)),
          trace := [RedisGet sample_key, HttpPost sample_url sample_prompt,
            RedisSetEx sample_key 3600 (Json good_response)]\<rparr>))
    = (Inr good_response,
       (flaky_world (script_reply good_reply))\<lparr>now := 10, redis_cmds := 4, http_calls := 2,
          redis_store := Map.empty(sample_key \<mapsto> (Json good_response, 3610)),
          trace := [RedisGet sample_key, HttpPost sample_url sample_prompt,
            RedisSetEx sample_key 3600 (Json good_response),
            RedisGet sample_key, LogError ''Cache get error:'',
            HttpPost sample_url sample_prompt,
            RedisSetEx sample_key 3600 (Json good_response)]\<rparr>)"
  by (simp add: eval_defs)

lemma remote_analyzeText_miss_ok:
  assumes miss: "cache_miss (generateCacheKey rt p (req_text request) ''analysis'') w"
    and http: "http_script w (http_calls w) = HttpResponse status data" "200 \<le> status" "status < 300"
  shows "\<exists>result wb wc. parseAnalysisResponse rt p data wb = (Inr result, wc)
      \<and> http_calls wb = Suc (http_calls w)
      \<and> remote_analyzeText rt p request w =
          (Inr result, snd (cache_set (generateCacheKey rt p (req_text request) ''analysis'')
                              result 3600 wc))"
proof -
  let ?key = "generateCacheKey rt p (req_text request) ''analysis''"
  let ?u = "provider_url p"
  let ?body = "buildAnalysisPrompt (req_text request) (req_url request)"
  obtain c wa where get: "cache_get ?key w = (Inr c, wa)"
    and sa: "http_script wa = http_script w" "http_calls wa = http_calls w"
    using cache_get_result [of ?key w] by blast
  let ?wb = "wa\<lparr>http_calls := Suc (http_calls wa), trace := trace wa @ [HttpPost ?u ?body]\<rparr>"
  have post: "axios_post ?u ?body wa = (Inr data, ?wb)"
    using http sa by (intro axios_post_ok) simp_all
  obtain r1 wc where parse: "parseAnalysisResponse rt p data ?wb = (Inr r1, wc)"
    using parseAnalysisResponse_result [of rt p data ?wb] by blast
  obtain wd where set: "cache_set ?key r1 3600 wc = (Inr (), wd)"
    using cache_set_never_throws by blast
  have "remote_analyzeText rt p request w = (Inr r1, snd (cache_set ?key r1 3600 wc))"
    using remote_analyzeText_on_miss [OF miss] get post parse set by (simp add: io_defs)
  moreover have "http_calls ?wb = Suc (http_calls w)" using sa by simp
  ultimately show ?thesis using parse by blast
qed

lemma remote_chat_miss_ok:
  assumes miss: "cache_miss (generateCacheKey rt p (chat_context request @ '':'' @ chat_question request) ''chat'') w"
    and http: "http_script w (http_calls w) = HttpResponse status data" "200 \<le> status" "status < 300"
  shows "\<exists>result wb wc. parseChatResponse rt p data wb = (Inr result, wc)
      \<and> http_calls wb = Suc (http_calls w)
      \<and> remote_chat rt p request w =
          (Inr result, snd (cache_set (generateCacheKey rt p (chat_context request @ '':'' @ chat_question request) ''chat'')
                              result 1800 wc))
      \<and> (redis_healthy w \<longrightarrow>
           redis_store (snd (remote_chat rt p request w)) =
             (redis_store w)(generateCacheKey rt p (chat_context request @ '':'' @ chat_question request) ''chat''
                \<mapsto> (Json (json_norm result), now w + 1800))
           \<and> last (trace (snd (remote_chat rt p request w))) =
               RedisSetEx (generateCacheKey rt p (chat_context request @ '':'' @ chat_question request) ''chat'')
                 1800 (Json (json_norm result)))"
proof -
  let ?key = "generateCacheKey rt p (chat_context request @ '':'' @ chat_question request) ''chat''"
  let ?u = "provider_url p"
  let ?body = "buildChatPrompt (chat_context request) (chat_question request)"
  obtain c wa where get: "cache_get ?key w = (Inr c, wa)"
    and sa: "http_script wa = http_script w" "http_calls wa = http_calls w"
      "redis_store wa = redis_store w" "now wa = now w" "redis_open wa = redis_open w"
      "redis_faults wa = redis_faults w"
    using cache_get_result [of ?key w] by blast
  let ?wb = "wa\<lparr>http_calls := Suc (http_calls wa), trace := trace wa @ [HttpPost ?u ?body]\<rparr>"
  have post: "axios_post ?u ?body wa = (Inr data, ?wb)"
    using http sa by (intro axios_post_ok) simp_all
  obtain r1 wc where parse: "parseChatResponse rt p data ?wb = (Inr r1, wc)"
    and def: "r1 \<noteq> JUndefined"
    and sc: "redis_store wc = redis_store ?wb" "now wc = now ?wb" "redis_open wc = redis_open ?wb"
      "redis_faults wc = redis_faults ?wb"
    using parseChatResponse_result [of rt p data ?wb] by blast
  obtain wd where set: "cache_set ?key r1 1800 wc = (Inr (), wd)"
    using cache_set_never_throws by blast
  have run: "remote_chat rt p request w = (Inr r1, snd (cache_set ?key r1 1800 wc))"
    using remote_chat_on_miss [OF miss] get post parse set by (simp add: io_defs)
  have "redis_healthy w \<longrightarrow>
           redis_store (snd (remote_chat rt p request w)) =
             (redis_store w)(?key \<mapsto> (Json (json_norm r1), now w + 1800))
           \<and> last (trace (snd (remote_chat rt p request w))) =
               RedisSetEx ?key 1800 (Json (json_norm r1))"
  proof
    assume "redis_healthy w"
    then have hc: "redis_healthy wc" using sa sc by (simp add: redis_healthy_def)
    show "redis_store (snd (remote_chat rt p request w)) =
             (redis_store w)(?key \<mapsto> (Json (json_norm r1), now w + 1800))
           \<and> last (trace (snd (remote_chat rt p request w))) =
               RedisSetEx ?key 1800 (Json (json_norm r1))"
      using run cache_set_healthy [OF hc def, of ?key 1800] sa sc by simp
  qed
  moreover have "http_calls ?wb = Suc (http_calls w)" using sa by simp
  ultimately show ?thesis using parse run by blast
qed

text \<open>
  Claim C8. On a cache miss answered by the network with a 2xx status, the analysis of a
  remote provider ends with \<open>cache.set(key, result, 3600)\<close> on the result it returns, and
  its chat with \<open>cache.set(key, result, 1800)\<close>; when Redis is connected and accepts the
  command, the entry is the JSON text of the result and expires 3600, respectively 1800,
  seconds after the call. The key is the operation name, the first 16 hex digits of the
  SHA-256 digest of the content and the model name, joined by colons.
\<close>

theorem C8_cache_ttl_and_key:
  assumes "cls p \<noteq> LocalProvider"
    and "http_script w (http_calls w) = HttpResponse status data"
    and "200 \<le> status" and "status < 300"
  shows "(cache_miss (generateCacheKey rt p (req_text request) ''analysis'') w \<longrightarrow>
          (\<exists>result wc. provider_analyzeText rt p request w =
              (Inr result, snd (cache_set (generateCacheKey rt p (req_text request) ''analysis'')
                                  result 3600 wc))
            \<and> (redis_healthy w \<longrightarrow>
                 redis_store (snd (provider_analyzeText rt p request w)) =
                   (redis_store w)(generateCacheKey rt p (req_text request) ''analysis''
                      \<mapsto> (Json (json_norm result), now w + 3600))
                 \<and> last (trace (snd (provider_analyzeText rt p request w))) =
                     RedisSetEx (generateCacheKey rt p (req_text request) ''analysis'') 3600
                       (Json (json_norm result)))))
   \<and> (cache_miss (generateCacheKey rt p (chat_context chat @ '':'' @ chat_question chat) ''chat'') w \<longrightarrow>
          (\<exists>result wc. provider_chat rt p chat w =
              (Inr result, snd (cache_set (generateCacheKey rt p (chat_context chat @ '':'' @ chat_question chat) ''chat'')
                                  result 1800 wc))
            \<and> (redis_healthy w \<longrightarrow>
                 redis_store (snd (provider_chat rt p chat w)) =
                   (redis_store w)(generateCacheKey rt p (chat_context chat @ '':'' @ chat_question chat) ''chat''
                      \<mapsto> (Json (json_norm result), now w + 1800))
                 \<and> last (trace (snd (provider_chat rt p chat w))) =
                     RedisSetEx (generateCacheKey rt p (chat_context chat @ '':'' @ chat_question chat) ''chat'') 1800
                       (Json (json_norm result)))))
   \<and> generateCacheKey rt p txt operation
        = operation @ '':'' @ take 16 (sha256_hex rt txt) @ '':'' @ modelName p"
proof (intro conjI impI)
  let ?akey = "generateCacheKey rt p (req_text request) ''analysis''"
  assume miss: "cache_miss ?akey w"
  obtain result wb wc where parse: "parseAnalysisResponse rt p data wb = (Inr result, wc)"
    and run: "remote_analyzeText rt p request w = (Inr result, snd (cache_set ?akey result 3600 wc))"
    using remote_analyzeText_miss_ok [OF miss assms(2,3,4)] by blast
  have "redis_healthy w \<longrightarrow>
      redis_store (snd (remote_analyzeText rt p request w)) =
        (redis_store w)(?akey \<mapsto> (Json (json_norm result), now w + 3600))
      \<and> last (trace (snd (remote_analyzeText rt p request w))) =
          RedisSetEx ?akey 3600 (Json (json_norm result))"
  proof
    assume h: "redis_healthy w"
    obtain r1 w1 where r: "remote_analyzeText rt p request w = (Inr r1, w1)"
      and s: "redis_store w1 = (redis_store w)(?akey \<mapsto> (Json (json_norm r1), now w + 3600))"
      and t: "\<exists>evs. trace w1 = trace w @ evs @ [RedisSetEx ?akey 3600 (Json (json_norm r1))]"
      using remote_analyzeText_first_call [OF h miss assms(2,3,4)] by blast
    have "r1 = result" using r run by simp
    then show "redis_store (snd (remote_analyzeText rt p request w)) =
        (redis_store w)(?akey \<mapsto> (Json (json_norm result), now w + 3600))
      \<and> last (trace (snd (remote_analyzeText rt p request w))) =
          RedisSetEx ?akey 3600 (Json (json_norm result))"
      using r s t by auto
  qed
  then show "\<exists>result wc. provider_analyzeText rt p request w =
              (Inr result, snd (cache_set ?akey result 3600 wc))
            \<and> (redis_healthy w \<longrightarrow>
                 redis_store (snd (provider_analyzeText rt p request w)) =
                   (redis_store w)(?akey \<mapsto> (Json (json_norm result), now w + 3600))
                 \<and> last (trace (snd (provider_analyzeText rt p request w))) =
                     RedisSetEx ?akey 3600 (Json (json_norm result)))"
    using run unfolding provider_analyzeText_remote [OF assms(1)] by blast
next
  let ?ckey = "generateCacheKey rt p (chat_context chat @ '':'' @ chat_question chat) ''chat''"
  assume miss: "cache_miss ?ckey w"
  show "\<exists>result wc. provider_chat rt p chat w =
              (Inr result, snd (cache_set ?ckey result 1800 wc))
            \<and> (redis_healthy w \<longrightarrow>
                 redis_store (snd (provider_chat rt p chat w)) =
                   (redis_store w)(?ckey \<mapsto> (Json (json_norm result), now w + 1800))
                 \<and> last (trace (snd (provider_chat rt p chat w))) =
                     RedisSetEx ?ckey 1800 (Json (json_norm result)))"
    using remote_chat_miss_ok [OF miss assms(2,3,4)]
    unfolding provider_chat_remote [OF assms(1)] by blast
next
  show "generateCacheKey rt p txt operation
        = operation @ '':'' @ take 16 (sha256_hex rt txt) @ '':'' @ modelName p"
    by (simp add: generateCacheKey_def cache_generateKey_def Let_def)
qed

lemmas chat_defs = provider_chat_def remote_chat_def local_chat_def buildChatPrompt_def
  parseChatResponse_def parseChatResponse_body_def content_trim_def ascii_trim_def is_space_def
  chat_sources_def sample_chat_request_def sample_chat_key_def

theorem C8_cache_ttl_and_key_witness:
  "cls sample_gemini \<noteq> LocalProvider
   \<and> http_script (online_world (script_reply prose_reply))
        (http_calls (online_world (script_reply prose_reply))) = HttpResponse 200 prose_reply
   \<and> redis_healthy (online_world (script_reply prose_reply))
   \<and> cache_miss (generateCacheKey sample_runtime sample_gemini (req_text sample_request) ''analysis'')
        (online_world (script_reply prose_reply))
   \<and> cache_miss (generateCacheKey sample_runtime sample_gemini
          (chat_context sample_chat_request @ '':'' @ chat_question sample_chat_request) ''chat'')
        (online_world (script_reply prose_reply))
   \<and> provider_analyzeText sample_runtime sample_gemini sample_request
        (online_world (script_reply prose_reply))
      = (Inr (parse_fallback_response sample_gemini),
         (online_world (script_reply prose_reply))\<lparr>redis_cmds := 2, http_calls := 1,
            redis_store := Map.empty(sample_key \<mapsto> (Json (parse_fallback_response sample_gemini), 3600)),
            trace := [RedisGet sample_key, HttpPost sample_url sample_prompt,
              LogError ''Failed to parse Gemini analysis response:'',
              RedisSetEx sample_key 3600 (Json (parse_fallback_response sample_gemini))]\<rparr>)
   \<and> provider_chat sample_runtime sample_gemini sample_chat_request
        (online_world (script_reply prose_reply))
      = (Inr (JObj [(''answer'', JStr ''I cannot help with that request.''),
                    (''sources'', JArr [JStr ''Gemini AI Model'']),
                    (''model'', JStr ''gemini-free''), (''provider'', JStr ''gemini''),
                    (''confidence'', JNum (Number 0.8))]),
         (online_world (script_reply prose_reply))\<lparr>redis_cmds := 2, http_calls := 1,
            redis_store := Map.empty(sample_chat_key \<mapsto>
              (Json (JObj [(''answer'', JStr ''I cannot help with that request.''),
                    (''sources'', JArr [JStr ''Gemini AI Model'']),
                    (''model'', JStr ''gemini-free''), (''provider'', JStr ''gemini''),
                    (''confidence'', JNum (Number 0.8))]), 1800)),
            trace := [RedisGet sample_chat_key,
              HttpPost sample_url (ChatPrompt ''Your account is locked'' ''Is this phishing?''),
              RedisSetEx sample_chat_key 1800
                (Json (JObj [(''answer'', JStr ''I cannot help with that request.''),
                    (''sources'', JArr [JStr ''Gemini AI Model'']),
                    (''model'', JStr ''gemini-free''), (''provider'', JStr ''gemini''),
                    (''confidence'', JNum (Number 0.8))]))]\<rparr>)"
  using C8_cache_ttl_and_key
    [of sample_gemini "online_world (script_reply prose_reply)" 200 prose_reply
      sample_runtime sample_request sample_chat_request]
  by (simp add: eval_defs chat_defs)

text \<open>
  Claim C10, amended. When the request of a remote provider is answered with a 2xx status
  and the body of \<open>parseAnalysisResponse\<close> throws on the reply, the provider returns the
  placeholder (score 0.5, label uncertain, confidence 0.1) as its result. When moreover
  Redis is connected and accepts every command, the placeholder is stored for 3600 seconds
  and an identical call less than 3600 seconds later returns it without any request.
\<close>

theorem C10_parse_failure_placeholder_is_cached:
  assumes "cls p \<noteq> LocalProvider"
    and "cache_miss (generateCacheKey rt p (req_text request) ''analysis'') w"
    and "http_script w (http_calls w) = HttpResponse status data"
    and "200 \<le> status" and "status < 300"
    and "parseAnalysisResponse_body rt p data = Inl e"
  shows "(\<exists>w1. provider_analyzeText rt p request w = (Inr (parse_fallback_response p), w1))
      \<and> opt_prop (parse_fallback_response p) ''score'' = JNum (Number 0.5)
      \<and> opt_prop (parse_fallback_response p) ''label'' = JStr ''uncertain''
      \<and> opt_prop (parse_fallback_response p) ''confidence'' = JNum (Number 0.1)
      \<and> (redis_healthy w \<and> d < 3600 \<longrightarrow>
           (\<exists>w1. provider_analyzeText rt p request w = (Inr (parse_fallback_response p), w1)
              \<and> http_calls w1 = Suc (http_calls w)
              \<and> redis_store w1 = (redis_store w)(generateCacheKey rt p (req_text request) ''analysis''
                    \<mapsto> (Json (parse_fallback_response p), now w + 3600))
              \<and> provider_analyzeText rt p request (advance d w1) =
                   (Inr (parse_fallback_response p),
                    (advance d w1)\<lparr>redis_cmds := Suc (redis_cmds w1),
                       trace := trace w1 @ [RedisGet (generateCacheKey rt p (req_text request) ''analysis''),
                         LogDebug (''Using cached '' @ class_label (cls p) @ '' analysis result'')]\<rparr>)))"
proof (intro conjI impI)
  have fallback: "\<And>wb r wc. parseAnalysisResponse rt p data wb = (Inr r, wc) \<Longrightarrow>
      r = parse_fallback_response p"
    using assms(6) by (auto simp: parseAnalysisResponse_def io_defs)
  obtain result wb wc where parse: "parseAnalysisResponse rt p data wb = (Inr result, wc)"
    and run: "remote_analyzeText rt p request w =
      (Inr result, snd (cache_set (generateCacheKey rt p (req_text request) ''analysis'') result 3600 wc))"
    using remote_analyzeText_miss_ok [OF assms(2,3,4,5)] by blast
  show "\<exists>w1. provider_analyzeText rt p request w = (Inr (parse_fallback_response p), w1)"
    using run fallback [OF parse] by (simp add: provider_analyzeText_remote [OF assms(1)])
  have clean: "json_norm (parse_fallback_response p) = parse_fallback_response p"
    by (simp add: parse_fallback_response_def)
  assume h: "redis_healthy w \<and> d < 3600"
  obtain r1 w1 w0 w2 where r: "provider_analyzeText rt p request w = (Inr r1, w1)"
    and c1: "http_calls w1 = Suc (http_calls w)"
    and s1: "redis_store w1 = (redis_store w)(generateCacheKey rt p (req_text request) ''analysis''
            \<mapsto> (Json (json_norm r1), now w + 3600))"
    and second: "provider_analyzeText rt p request (advance d w1) =
           (Inr (json_norm r1),
            (advance d w1)\<lparr>redis_cmds := Suc (redis_cmds w1),
               trace := trace w1 @ [RedisGet (generateCacheKey rt p (req_text request) ''analysis''),
                 LogDebug (''Using cached '' @ class_label (cls p) @ '' analysis result'')]\<rparr>)"
    using provider_analyzeText_two_calls [OF assms(1) _ assms(2,3,4,5), of d] h by blast
  have "r1 = parse_fallback_response p"
    using r run fallback [OF parse] by (simp add: provider_analyzeText_remote [OF assms(1)])
  then show "\<exists>w1. provider_analyzeText rt p request w = (Inr (parse_fallback_response p), w1)
              \<and> http_calls w1 = Suc (http_calls w)
              \<and> redis_store w1 = (redis_store w)(generateCacheKey rt p (req_text request) ''analysis''
                    \<mapsto> (Json (parse_fallback_response p), now w + 3600))
              \<and> provider_analyzeText rt p request (advance d w1) =
                   (Inr (parse_fallback_response p),
                    (advance d w1)\<lparr>redis_cmds := Suc (redis_cmds w1),
                       trace := trace w1 @ [RedisGet (generateCacheKey rt p (req_text request) ''analysis''),
                         LogDebug (''Using cached '' @ class_label (cls p) @ '' analysis result'')]\<rparr>)"
    using r c1 s1 second clean by auto
qed (simp_all add: parse_fallback_response_def)


theorem C10_parse_failure_placeholder_is_cached_witness:
  "cls sample_gemini \<noteq> LocalProvider
   \<and> cache_miss (generateCacheKey sample_runtime sample_gemini (req_text sample_request) ''analysis'')
        (online_world (script_reply prose_reply))
   \<and> http_script (online_world (script_reply prose_reply))
        (http_calls (online_world (script_reply prose_reply))) = HttpResponse 200 prose_reply
   \<and> parseAnalysisResponse_body sample_runtime sample_gemini prose_reply
        = Inl (Error ''No JSON found in Gemini response'')
   \<and> redis_healthy (online_world (script_reply prose_reply))
   \<and> provider_analyzeText sample_runtime sample_gemini sample_request
        (online_world (script_reply prose_reply))
      = (Inr (parse_fallback_response sample_gemini),
         (online_world (script_reply prose_reply))\<lparr>redis_cmds := 2, http_calls := 1,
            redis_store := Map.empty(sample_key \<mapsto> (Json (parse_fallback_response sample_gemini), 3600)),
            trace := [RedisGet sample_key, HttpPost sample_url sample_prompt,
              LogError ''Failed to parse Gemini analysis response:'',
              RedisSetEx sample_key 3600 (Json (parse_fallback_response sample_gemini))]\<rparr>)
   \<and> provider_analyzeText sample_runtime sample_gemini sample_request
        (advance 10 ((online_world (script_reply prose_reply))\<lparr>redis_cmds := 2, http_calls := 1,
            redis_store := Map.empty(sample_key \<mapsto> (Json (parse_fallback_response sample_gemini), 3600)),
            trace := [RedisGet sample_key, HttpPost sample_url sample_prompt,
              LogError ''Failed to parse Gemini analysis response:'',
              RedisSetEx sample_key 3600 (Json (parse_fallback_response sample_gemini))]\<rparr>))
      = (Inr (parse_fallback_response sample_gemini),
         (online_world (script_reply prose_reply))\<lparr>now := 10, redis_cmds := 3, http_calls := 1,
            redis_store := Map.empty(sample_key \<mapsto> (Json (parse_fallback_response sample_gemini), 3600)),
            trace := [RedisGet sample_key, HttpPost sample_url sample_prompt,
              LogError ''Failed to parse Gemini analysis response:'',
              RedisSetEx sample_key 3600 (Json (parse_fallback_response sample_gemini)),
              RedisGet sample_key, LogDebug ''Using cached Gemini analysis result'']\<rparr>)"
  using C10_parse_failure_placeholder_is_cached
    [of sample_gemini sample_runtime sample_request "online_world (script_reply prose_reply)"
      200 prose_reply "Error ''No JSON found in Gemini response''" 10]
  by (simp add: eval_defs)

text \<open>
  The claim C10 as stated fails when a cache command fails. Here the placeholder is stored
  for 3600 seconds; the lookup of the identical call 10 seconds later is rejected by
  Redis, is treated as a miss, and the provider is requested a second time.
\<close>

theorem C10_rejected_lookup_counterexample:
  "parseAnalysisResponse_body sample_runtime sample_gemini prose_reply
      = Inl (Error ''No JSON found in Gemini response'')
   \<and> provider_analyzeText sample_runtime sample_gemini sample_request
      (flaky_world (script_reply prose_reply))
    = (Inr (parse_fallback_response sample_gemini),
       (flaky_world (script_reply prose_reply))\<lparr>redis_cmds := 2, http_calls := 1,
          redis_store := Map.empty(sample_key \<mapsto> (Json (parse_fallback_response sample_gemini), 3600)),
          trace := [RedisGet sample_key, HttpPost sample_url sample_prompt,
            LogError ''Failed to parse Gemini analysis response:'',
            RedisSetEx sample_key 3600 (Json (parse_fallback_response sample_gemini))]\<rparr>)
   \<and> provider_analyzeText sample_runtime sample_gemini sample_request
      (advance 10 ((flaky_world (script_reply prose_reply))\<lparr>redis_cmds := 2, http_calls := 1,
          redis_store := Map.empty(sample_key \<mapsto> (Json (parse_fallback_response sample_gemini), 3600)),
          trace := [RedisGet sample_key, HttpPost sample_url sample_prompt,
            LogError ''Failed to parse Gemini analysis response:'',
            RedisSetEx sample_key 3600 (Json (parse_fallback_response sample_gemini))]\<rparr>))
    = (Inr (parse_fallback_response sample_gemini),
       (flaky_world (script_reply prose_reply))\<lparr>now := 10, redis_cmds := 4, http_calls := 2,
          redis_store := Map.empty(sample_key \<mapsto> (Json (parse_fallback_response sample_gemini), 3610)),
          trace := [RedisGet sample_key, HttpPost sample_url sample_prompt,
            LogError ''Failed to parse Gemini analysis response:'',
            RedisSetEx sample_key 3600 (Json (parse_fallback_response sample_gemini)),
            RedisGet sample_key, LogError ''Cache get error:'',
            HttpPost sample_url sample_prompt,
            LogError ''Failed to parse Gemini analysis response:'',
            RedisSetEx sample_key 3600 (Json (parse_fallback_response sample_gemini))]\<rparr>)"
  by (simp add: eval_defs)

lemma remote_analyzeText_http_calls:
  "remote_analyzeText rt p request w = (res, w') \<Longrightarrow>
   http_calls w \<le> http_calls w' \<and> http_calls w' \<le> Suc (http_calls w)"
proof -
  assume run: "remote_analyzeText rt p request w = (res, w')"
  let ?key = "generateCacheKey rt p (req_text request) ''analysis''"
  let ?u = "provider_url p"
  let ?body = "buildAnalysisPrompt (req_text request) (req_url request)"
  obtain c wa where get: "cache_get ?key w = (Inr c, wa)" and ca: "http_calls wa = http_calls w"
    using cache_get_result [of ?key w] by blast
  show ?thesis
  proof (cases "truthy c")
    case True
    then have "http_calls w' = http_calls wa"
      using run get by (auto simp: remote_analyzeText_def Let_def io_defs)
    then show ?thesis using ca by simp
  next
    case False
    let ?wb = "wa\<lparr>http_calls := Suc (http_calls wa), trace := trace wa @ [HttpPost ?u ?body]\<rparr>"
    obtain r0 where post: "axios_post ?u ?body wa = (r0, ?wb)"
      using axios_post_result by blast
    show ?thesis
    proof (cases r0)
      case (Inl e)
      then have "http_calls w' = http_calls ?wb"
        using run get False post by (auto simp: remote_analyzeText_def Let_def io_defs)
      then show ?thesis using ca by simp
    next
      case (Inr data)
      obtain r wc where parse: "parseAnalysisResponse rt p data ?wb = (Inr r, wc)"
        and cc: "http_calls wc = http_calls ?wb"
        using parseAnalysisResponse_result [of rt p data ?wb] by blast
      obtain wd where set: "cache_set ?key r 3600 wc = (Inr (), wd)"
        and cd: "http_calls wd = http_calls wc"
        using cache_set_result [of ?key r 3600 wc] by blast
      have "w' = wd"
        using run get False post Inr parse set by (auto simp: remote_analyzeText_def Let_def io_defs)
      then show ?thesis using ca cc cd by simp
    qed
  qed
qed

lemma provider_analyzeText_http_calls:
  "provider_analyzeText rt p request w = (res, w') \<Longrightarrow>
   http_calls w \<le> http_calls w' \<and> http_calls w' \<le> Suc (http_calls w)"
proof (cases "cls p = LocalProvider")
  case True
  assume "provider_analyzeText rt p request w = (res, w')"
  then show ?thesis
    using True by (auto simp: provider_analyzeText_def local_analyzeText_def io_defs)
next
  case False
  assume "provider_analyzeText rt p request w = (res, w')"
  then show ?thesis
    using remote_analyzeText_http_calls [of rt p request w res w']
    by (simp add: provider_analyzeText_remote [OF False])
qed

lemma ModelBridge_analyzeText_on_primary_failure:
  "primary_analyzeText rt b request w = (Inl e, w1) \<Longrightarrow>
   ModelBridge_analyzeText rt b request w =
     try_catch (provider_analyzeText rt (fallbackProvider b) request)
       (\<lambda>fallbackError. bind (logger_error ''All model providers failed:'')
          (\<lambda>_. return emergency_response))
       (w1\<lparr>trace := trace w1 @ [LogWarn ''Primary model provider failed, trying fallback:'']\<rparr>)"
  by (simp add: ModelBridge_analyzeText_def io_defs)

lemma ModelBridge_analyzeText_on_primary_success:
  "primary_analyzeText rt b request w = (Inr r, w1) \<Longrightarrow>
   ModelBridge_analyzeText rt b request w = (Inr r, w1)"
  by (simp add: ModelBridge_analyzeText_def io_defs)

lemma ModelBridge_analyzeText_http_calls:
  "http_calls (snd (ModelBridge_analyzeText rt b request w)) \<le> http_calls w + 2"
proof -
  obtain r1 w1 where prim: "primary_analyzeText rt b request w = (r1, w1)"
    by (cases "primary_analyzeText rt b request w")
  have c1: "http_calls w1 \<le> Suc (http_calls w)"
  proof (cases "providers b ''primary''")
    case None
    then show ?thesis using prim by (auto simp: primary_analyzeText_def io_defs)
  next
    case (Some p)
    then show ?thesis
      using prim provider_analyzeText_http_calls [of rt p request w r1 w1]
      by (simp add: primary_analyzeText_def)
  qed
  show ?thesis
  proof (cases r1)
    case (Inr r)
    then show ?thesis
      using prim c1 by (simp add: ModelBridge_analyzeText_on_primary_success)
  next
    case (Inl e)
    let ?w2 = "w1\<lparr>trace := trace w1 @ [LogWarn ''Primary model provider failed, trying fallback:'']\<rparr>"
    obtain r2 w3 where fb: "provider_analyzeText rt (fallbackProvider b) request ?w2 = (r2, w3)"
      by (cases "provider_analyzeText rt (fallbackProvider b) request ?w2")
    have "http_calls w3 \<le> Suc (http_calls ?w2)"
      using provider_analyzeText_http_calls [OF fb] by simp
    then have "http_calls w3 \<le> http_calls w + 2" using c1 by simp
    then show ?thesis
      using prim Inl fb
      by (cases r2) (simp_all add: ModelBridge_analyzeText_on_primary_failure io_defs)
  qed
qed

lemma initializeProviders_slots:
  assumes "initializeProviders c w = (Inr b, w')"
  shows "(\<forall>p. providers b ''primary'' = Some p \<longrightarrow>
            providers b ''fallback'' = None \<and> fallbackProvider b = p)
    \<and> (providers b ''primary'' = None \<and> key_truthy (geminiApiKey c) \<longrightarrow>
         providers b ''fallback'' = Some (fallbackProvider b)
         \<and> fallbackProvider b = \<lparr>cls = GeminiProvider, apiKey = geminiApiKey c,
              modelName = ''gemini-free'', provider_name = ''gemini'', oid = 2\<rparr>)
    \<and> (providers b ''primary'' = None \<and> \<not> key_truthy (geminiApiKey c) \<longrightarrow>
         providers b ''fallback'' = None
         \<and> fallbackProvider b = \<lparr>cls = LocalProvider, apiKey = None,
              modelName = ''local'', provider_name = ''local'', oid = 3\<rparr>)"
  using assms
  by (auto simp: initializeProviders_def getModelConfig_def io_defs Let_def
      split: if_splits sum.splits)

text \<open>
  Claim C3, amended. When the primary call fails, control passes to the fallback path
  once: the bridge logs one warning and calls \<open>analyzeText\<close> of the fallback provider one
  time, and a whole call of the bridge makes at most two requests. The fallback provider
  is the separately built Gemini instance only when no primary provider was built and a
  Gemini key is configured; whenever a primary provider exists the fallback provider is
  that same instance, and with neither it is a local stub.
\<close>

theorem C3_fallback_path_once_and_fallback_slot:
  "(\<forall>b w'. initializeProviders c w0 = (Inr b, w') \<longrightarrow>
      (\<forall>p. providers b ''primary'' = Some p \<longrightarrow>
            providers b ''fallback'' = None \<and> fallbackProvider b = p)
      \<and> (providers b ''primary'' = None \<and> key_truthy (geminiApiKey c) \<longrightarrow>
           providers b ''fallback'' = Some (fallbackProvider b)
           \<and> fallbackProvider b = \<lparr>cls = GeminiProvider, apiKey = geminiApiKey c,
                modelName = ''gemini-free'', provider_name = ''gemini'', oid = 2\<rparr>)
      \<and> (providers b ''primary'' = None \<and> \<not> key_truthy (geminiApiKey c) \<longrightarrow>
           providers b ''fallback'' = None
           \<and> fallbackProvider b = \<lparr>cls = LocalProvider, apiKey = None,
                modelName = ''local'', provider_name = ''local'', oid = 3\<rparr>))
   \<and> (\<forall>e w1. primary_analyzeText rt b0 request w = (Inl e, w1) \<longrightarrow>
        ModelBridge_analyzeText rt b0 request w =
          try_catch (provider_analyzeText rt (fallbackProvider b0) request)
            (\<lambda>fallbackError. bind (logger_error ''All model providers failed:'')
               (\<lambda>_. return emergency_response))
            (w1\<lparr>trace := trace w1 @ [LogWarn ''Primary model provider failed, trying fallback:'']\<rparr>))
   \<and> (\<forall>r w1. primary_analyzeText rt b0 request w = (Inr r, w1) \<longrightarrow>
        ModelBridge_analyzeText rt b0 request w = (Inr r, w1))
   \<and> http_calls (snd (ModelBridge_analyzeText rt b0 request w)) \<le> http_calls w + 2"
  using initializeProviders_slots [of c w0] ModelBridge_analyzeText_on_primary_failure [of rt b0 request w]
    ModelBridge_analyzeText_on_primary_success [of rt b0 request w]
    ModelBridge_analyzeText_http_calls [of rt b0 request w]
  by blast

lemmas bridge_defs = ModelBridge_analyzeText_def primary_analyzeText_def initializeProviders_def
  getModelConfig_def key_truthy_def sample_config_def openai_keyless_config_def keyless_config_def

theorem C3_fallback_path_once_and_fallback_slot_witness:
  "initializeProviders sample_config (online_world script_timeout)
     = (Inr sample_bridge, (online_world script_timeout)\<lparr>trace :=
          [LogInfo ''Model bridge initialized with primary provider: gemini'']\<rparr>)
   \<and> providers sample_bridge ''primary'' = Some sample_gemini
   \<and> providers sample_bridge ''fallback'' = None
   \<and> fallbackProvider sample_bridge = sample_gemini
   \<and> initializeProviders openai_keyless_config (online_world script_timeout)
     = (Inr \<lparr>providers = Map.empty(''fallback'' \<mapsto> \<lparr>cls = GeminiProvider, apiKey = Some ''k1'',
                 modelName = ''gemini-free'', provider_name = ''gemini'', oid = 2\<rparr>),
             fallbackProvider = \<lparr>cls = GeminiProvider, apiKey = Some ''k1'',
                 modelName = ''gemini-free'', provider_name = ''gemini'', oid = 2\<rparr>\<rparr>,
        (online_world script_timeout)\<lparr>trace :=
          [LogInfo ''Model bridge initialized with primary provider: openai'']\<rparr>)
   \<and> key_truthy (geminiApiKey openai_keyless_config)
   \<and> initializeProviders keyless_config (online_world script_timeout)
     = (Inr \<lparr>providers = Map.empty,
             fallbackProvider = \<lparr>cls = LocalProvider, apiKey = None,
                 modelName = ''local'', provider_name = ''local'', oid = 3\<rparr>\<rparr>,
        (online_world script_timeout)\<lparr>trace :=
          [LogInfo ''Model bridge initialized with primary provider: gemini'']\<rparr>)
   \<and> \<not> key_truthy (geminiApiKey keyless_config)
   \<and> primary_analyzeText sample_runtime sample_bridge sample_request (online_world script_timeout)
     = (Inl (Error ''Gemini analysis failed: timeout of 30000ms exceeded''),
        (online_world script_timeout)\<lparr>redis_cmds := 1, http_calls := 1,
           trace := [RedisGet sample_key, HttpPost sample_url sample_prompt,
             LogError ''Gemini analysis error:'']\<rparr>)
   \<and> primary_analyzeText sample_runtime sample_bridge sample_request
        (online_world (script_reply good_reply))
     = (Inr good_response,
        (online_world (script_reply good_reply))\<lparr>redis_cmds := 2, http_calls := 1,
            redis_store := Map.empty(sample_key \<mapsto> (Json good_response, 3600)),
            trace := [RedisGet sample_key, HttpPost sample_url sample_prompt,
              RedisSetEx sample_key 3600 (Json good_response)]\<rparr>)
   \<and> ModelBridge_analyzeText sample_runtime sample_bridge sample_request
        (online_world (script_reply good_reply))
     = (Inr good_response,
        (online_world (script_reply good_reply))\<lparr>redis_cmds := 2, http_calls := 1,
            redis_store := Map.empty(sample_key \<mapsto> (Json good_response, 3600)),
            trace := [RedisGet sample_key, HttpPost sample_url sample_prompt,
              RedisSetEx sample_key 3600 (Json good_response)]\<rparr>)"
  using C3_fallback_path_once_and_fallback_slot
      [of sample_config "online_world script_timeout" sample_runtime sample_bridge
        sample_request "online_world script_timeout"]
    C3_fallback_path_once_and_fallback_slot
      [of openai_keyless_config "online_world script_timeout" sample_runtime sample_bridge
        sample_request "online_world (script_reply good_reply)"]
    C3_fallback_path_once_and_fallback_slot
      [of keyless_config "online_world script_timeout" sample_runtime sample_bridge
        sample_request "online_world (script_reply good_reply)"]
  by (simp add: bridge_defs eval_defs)

text \<open>
  The claim C3 as stated fails for the bridge built from a configuration that selects
  Gemini and has its key: the fallback provider is the primary instance itself, and when
  every request times out the same provider is requested twice in one call of the bridge.
\<close>

theorem C3_failed_primary_is_retried_counterexample:
  "fst (initializeProviders sample_config (online_world script_timeout)) = Inr sample_bridge
   \<and> providers sample_bridge ''primary'' = Some sample_gemini
   \<and> fallbackProvider sample_bridge = sample_gemini
   \<and> oid (fallbackProvider sample_bridge) = oid sample_gemini
   \<and> ModelBridge_analyzeText sample_runtime sample_bridge sample_request (online_world script_timeout)
     = (Inr emergency_response,
        (online_world script_timeout)\<lparr>redis_cmds := 2, http_calls := 2,
           trace := [RedisGet sample_key, HttpPost sample_url sample_prompt,
             LogError ''Gemini analysis error:'',
             LogWarn ''Primary model provider failed, trying fallback:'',
             RedisGet sample_key, HttpPost sample_url sample_prompt,
             LogError ''Gemini analysis error:'',
             LogError ''All model providers failed:'']\<rparr>)"
  by (simp add: bridge_defs eval_defs emergency_response_def)

lemma remote_analyzeText_http_failure:
  assumes miss: "cache_miss (generateCacheKey rt p (req_text request) ''analysis'') w"
    and failed: "http_failed (http_script w (http_calls w))"
  shows "\<exists>e. remote_analyzeText rt p request w =
      (Inl e, (snd (cache_get (generateCacheKey rt p (req_text request) ''analysis'') w))
         \<lparr>http_calls := Suc (http_calls w),
          trace := trace (snd (cache_get (generateCacheKey rt p (req_text request) ''analysis'') w))
            @ [HttpPost (provider_url p) (buildAnalysisPrompt (req_text request) (req_url request)),
               LogError (class_label (cls p) @ '' analysis error:'')]\<rparr>)"
proof -
  let ?key = "generateCacheKey rt p (req_text request) ''analysis''"
  let ?u = "provider_url p"
  let ?body = "buildAnalysisPrompt (req_text request) (req_url request)"
  obtain c wa where get: "cache_get ?key w = (Inr c, wa)"
    and sa: "http_script wa = http_script w" "http_calls wa = http_calls w"
    using cache_get_result [of ?key w] by blast
  have "http_failed (http_script wa (http_calls wa))" using failed sa by simp
  then obtain e where post: "axios_post ?u ?body wa =
      (Inl e, wa\<lparr>http_calls := Suc (http_calls wa), trace := trace wa @ [HttpPost ?u ?body]\<rparr>)"
    using axios_post_failed by blast
  show ?thesis
    using remote_analyzeText_on_miss [OF miss] get post sa by (simp add: io_defs)
qed

lemma remote_analyzeText_parse_failure:
  assumes miss: "cache_miss (generateCacheKey rt p (req_text request) ''analysis'') w"
    and http: "http_script w (http_calls w) = HttpResponse status data" "200 \<le> status" "status < 300"
    and bad: "parseAnalysisResponse_body rt p data = Inl e"
  shows "remote_analyzeText rt p request w =
      (Inr (parse_fallback_response p),
       snd (cache_set (generateCacheKey rt p (req_text request) ''analysis'')
              (parse_fallback_response p) 3600
              ((snd (cache_get (generateCacheKey rt p (req_text request) ''analysis'') w))
                 \<lparr>http_calls := Suc (http_calls w),
                  trace := trace (snd (cache_get (generateCacheKey rt p (req_text request) ''analysis'') w))
                    @ [HttpPost (provider_url p) (buildAnalysisPrompt (req_text request) (req_url request)),
                       LogError (''Failed to parse '' @ class_label (cls p) @ '' analysis response:'')]\<rparr>)))"
proof -
  let ?key = "generateCacheKey rt p (req_text request) ''analysis''"
  let ?u = "provider_url p"
  let ?body = "buildAnalysisPrompt (req_text request) (req_url request)"
  obtain c wa where get: "cache_get ?key w = (Inr c, wa)"
    and sa: "http_script wa = http_script w" "http_calls wa = http_calls w"
    using cache_get_result [of ?key w] by blast
  let ?wb = "wa\<lparr>http_calls := Suc (http_calls wa), trace := trace wa @ [HttpPost ?u ?body]\<rparr>"
  have post: "axios_post ?u ?body wa = (Inr data, ?wb)"
    using http sa by (intro axios_post_ok) simp_all
  let ?wc = "?wb\<lparr>trace := trace ?wb @
      [LogError (''Failed to parse '' @ class_label (cls p) @ '' analysis response:'')]\<rparr>"
  have parse: "parseAnalysisResponse rt p data ?wb = (Inr (parse_fallback_response p), ?wc)"
    using bad by (simp add: parseAnalysisResponse_def io_defs)
  obtain wd where set: "cache_set ?key (parse_fallback_response p) 3600 ?wc = (Inr (), wd)"
    using cache_set_never_throws by blast
  show ?thesis
    using remote_analyzeText_on_miss [OF miss] get post parse set sa by (simp add: io_defs)
qed

text \<open>
  Claim C2, amended. Let the primary provider be a remote one and its cache lookup miss.
  When its request times out, gets no response or gets a status outside 200..299, the
  provider logs the error, the bridge logs the warning and calls the fallback provider on
  the same request. When the request is answered with a 2xx status and the body of
  \<open>parseAnalysisResponse\<close> throws on the reply, the provider logs the parse failure, hands
  the placeholder to \<open>cache.set\<close> and the bridge returns it: the fallback provider is not
  called.
\<close>

theorem C2_primary_failure_kinds:
  assumes "providers b ''primary'' = Some p"
    and "cls p \<noteq> LocalProvider"
    and "cache_miss (generateCacheKey rt p (req_text request) ''analysis'') w"
  shows "(http_failed (http_script w (http_calls w)) \<longrightarrow>
          ModelBridge_analyzeText rt b request w =
            try_catch (provider_analyzeText rt (fallbackProvider b) request)
              (\<lambda>fallbackError. bind (logger_error ''All model providers failed:'')
                 (\<lambda>_. return emergency_response))
              ((snd (cache_get (generateCacheKey rt p (req_text request) ''analysis'') w))
                 \<lparr>http_calls := Suc (http_calls w),
                  trace := trace (snd (cache_get (generateCacheKey rt p (req_text request) ''analysis'') w))
                    @ [HttpPost (provider_url p) (buildAnalysisPrompt (req_text request) (req_url request)),
                       LogError (class_label (cls p) @ '' analysis error:''),
                       LogWarn ''Primary model provider failed, trying fallback:'']\<rparr>))
     \<and> (\<forall>status data e.
          http_script w (http_calls w) = HttpResponse status data \<and> 200 \<le> status \<and> status < 300
          \<and> parseAnalysisResponse_body rt p data = Inl e \<longrightarrow>
          ModelBridge_analyzeText rt b request w =
            (Inr (parse_fallback_response p),
             snd (cache_set (generateCacheKey rt p (req_text request) ''analysis'')
                    (parse_fallback_response p) 3600
                    ((snd (cache_get (generateCacheKey rt p (req_text request) ''analysis'') w))
                       \<lparr>http_calls := Suc (http_calls w),
                        trace := trace (snd (cache_get (generateCacheKey rt p (req_text request) ''analysis'') w))
                          @ [HttpPost (provider_url p) (buildAnalysisPrompt (req_text request) (req_url request)),
                             LogError (''Failed to parse '' @ class_label (cls p) @ '' analysis response:'')]\<rparr>)))
          \<and> http_calls (snd (ModelBridge_analyzeText rt b request w)) = Suc (http_calls w))"
proof (intro conjI impI allI)
  assume "http_failed (http_script w (http_calls w))"
  from remote_analyzeText_http_failure [OF assms(3) this]
  obtain e where "primary_analyzeText rt b request w =
      (Inl e, (snd (cache_get (generateCacheKey rt p (req_text request) ''analysis'') w))
         \<lparr>http_calls := Suc (http_calls w),
          trace := trace (snd (cache_get (generateCacheKey rt p (req_text request) ''analysis'') w))
            @ [HttpPost (provider_url p) (buildAnalysisPrompt (req_text request) (req_url request)),
               LogError (class_label (cls p) @ '' analysis error:'')]\<rparr>)"
    using assms(1) by (auto simp: primary_analyzeText_def provider_analyzeText_remote [OF assms(2)])
  from ModelBridge_analyzeText_on_primary_failure [OF this]
  show "ModelBridge_analyzeText rt b request w =
            try_catch (provider_analyzeText rt (fallbackProvider b) request)
              (\<lambda>fallbackError. bind (logger_error ''All model providers failed:'')
                 (\<lambda>_. return emergency_response))
              ((snd (cache_get (generateCacheKey rt p (req_text request) ''analysis'') w))
                 \<lparr>http_calls := Suc (http_calls w),
                  trace := trace (snd (cache_get (generateCacheKey rt p (req_text request) ''analysis'') w))
                    @ [HttpPost (provider_url p) (buildAnalysisPrompt (req_text request) (req_url request)),
                       LogError (class_label (cls p) @ '' analysis error:''),
                       LogWarn ''Primary model provider failed, trying fallback:'']\<rparr>)"
    by simp
next
  fix status data e
  assume h: "http_script w (http_calls w) = HttpResponse status data \<and> 200 \<le> status \<and> status < 300
          \<and> parseAnalysisResponse_body rt p data = Inl e"
  let ?key = "generateCacheKey rt p (req_text request) ''analysis''"
  let ?wc = "(snd (cache_get ?key w))
                       \<lparr>http_calls := Suc (http_calls w),
                        trace := trace (snd (cache_get ?key w))
                          @ [HttpPost (provider_url p) (buildAnalysisPrompt (req_text request) (req_url request)),
                             LogError (''Failed to parse '' @ class_label (cls p) @ '' analysis response:'')]\<rparr>"
  have prim: "primary_analyzeText rt b request w =
      (Inr (parse_fallback_response p), snd (cache_set ?key (parse_fallback_response p) 3600 ?wc))"
    using remote_analyzeText_parse_failure [OF assms(3), of status data e] h assms(1)
    by (simp add: primary_analyzeText_def provider_analyzeText_remote [OF assms(2)])
  show run: "ModelBridge_analyzeText rt b request w =
      (Inr (parse_fallback_response p), snd (cache_set ?key (parse_fallback_response p) 3600 ?wc))"
    by (rule ModelBridge_analyzeText_on_primary_success [OF prim])
  have "http_calls (snd (cache_set ?key (parse_fallback_response p) 3600 ?wc)) = http_calls ?wc"
    using cache_set_result [of ?key "parse_fallback_response p" 3600 ?wc] by auto
  then show "http_calls (snd (ModelBridge_analyzeText rt b request w)) = Suc (http_calls w)"
    using run by simp
qed

theorem C2_primary_failure_kinds_witness:
  "providers sample_bridge ''primary'' = Some sample_gemini
   \<and> cls sample_gemini \<noteq> LocalProvider
   \<and> cache_miss (generateCacheKey sample_runtime sample_gemini (req_text sample_request) ''analysis'')
        (offline_world script_timeout)
   \<and> http_failed (http_script (offline_world script_timeout) (http_calls (offline_world script_timeout)))
   \<and> ModelBridge_analyzeText sample_runtime sample_bridge sample_request (offline_world script_timeout)
      = try_catch (provider_analyzeText sample_runtime sample_gemini sample_request)
          (\<lambda>fallbackError. bind (logger_error ''All model providers failed:'')
             (\<lambda>_. return emergency_response))
          ((offline_world script_timeout)\<lparr>http_calls := 1,
             trace := [LogError ''Cache get error:'', HttpPost sample_url sample_prompt,
               LogError ''Gemini analysis error:'',
               LogWarn ''Primary model provider failed, trying fallback:'']\<rparr>)
   \<and> cache_miss (generateCacheKey sample_runtime sample_gemini (req_text sample_request) ''analysis'')
        (offline_world (script_reply prose_reply))
   \<and> http_script (offline_world (script_reply prose_reply))
        (http_calls (offline_world (script_reply prose_reply))) = HttpResponse 200 prose_reply
   \<and> parseAnalysisResponse_body sample_runtime sample_gemini prose_reply
        = Inl (Error ''No JSON found in Gemini response'')
   \<and> ModelBridge_analyzeText sample_runtime sample_bridge sample_request
        (offline_world (script_reply prose_reply))
      = (Inr (parse_fallback_response sample_gemini),
         (offline_world (script_reply prose_reply))\<lparr>http_calls := 1,
            trace := [LogError ''Cache get error:'', HttpPost sample_url sample_prompt,
              LogError ''Failed to parse Gemini analysis response:'',
              LogError ''Cache set error:'']\<rparr>)"
  using C2_primary_failure_kinds
      [of sample_bridge sample_gemini sample_runtime sample_request "offline_world script_timeout"]
    C2_primary_failure_kinds
      [of sample_bridge sample_gemini sample_runtime sample_request
        "offline_world (script_reply prose_reply)"]
  by (simp add: bridge_defs eval_defs http_failed_def)

text \<open>
  The claim C2 as stated fails for a malformed body: the reply has status 200 and no JSON
  object in its text, the bridge returns the placeholder of the primary provider, no
  warning is logged and one request is made, so the fallback provider is not called.
\<close>

theorem C2_malformed_body_no_fallback_counterexample:
  "cache_miss sample_key (online_world (script_reply prose_reply))
   \<and> http_script (online_world (script_reply prose_reply)) 0 = HttpResponse 200 prose_reply
   \<and> parseAnalysisResponse_body sample_runtime sample_gemini prose_reply
        = Inl (Error ''No JSON found in Gemini response'')
   \<and> ModelBridge_analyzeText sample_runtime sample_bridge sample_request
        (online_world (script_reply prose_reply))
      = (Inr (parse_fallback_response sample_gemini),
         (online_world (script_reply prose_reply))\<lparr>redis_cmds := 2, http_calls := 1,
            redis_store := Map.empty(sample_key \<mapsto> (Json (parse_fallback_response sample_gemini), 3600)),
            trace := [RedisGet sample_key, HttpPost sample_url sample_prompt,
              LogError ''Failed to parse Gemini analysis response:'',
              RedisSetEx sample_key 3600 (Json (parse_fallback_response sample_gemini))]\<rparr>)
   \<and> LogWarn ''Primary model provider failed, trying fallback:''
        \<notin> set (trace (snd (ModelBridge_analyzeText sample_runtime sample_bridge sample_request
              (online_world (script_reply prose_reply)))))"
  by (simp add: bridge_defs eval_defs)

lemma Math_clamp_Number:
  "Math_max (Number 0) (Math_min (Number 1) n) = Number x \<Longrightarrow> 0 \<le> x \<and> x \<le> 1"
  by (cases n) (auto simp: Math_max_def Math_min_def split: if_splits)

lemma Math_clamp_NaN_iff: "Math_max (Number 0) (Math_min (Number 1) n) = NaN \<longleftrightarrow> n = NaN"
  by (cases n) (auto simp: Math_max_def Math_min_def)

lemma Math_clamp_finite_or_NaN:
  "Math_max (Number 0) (Math_min (Number 1) n) \<noteq> PosInfinity
   \<and> Math_max (Number 0) (Math_min (Number 1) n) \<noteq> NegInfinity"
  by (cases n) (auto simp: Math_max_def Math_min_def)

lemma normalized_response_numbers_clamped:
  assumes "normalized_response rt p parsed = Inr r"
  shows "(opt_prop r ''score'' = JNum (Number x) \<longrightarrow> 0 \<le> x \<and> x \<le> 1)
    \<and> (opt_prop r ''confidence'' = JNum (Number y) \<longrightarrow> 0 \<le> y \<and> y \<le> 1)
    \<and> (opt_prop r ''score'' = JNum NaN \<longleftrightarrow>
          ToNumber rt (js_or (opt_prop parsed ''score'') (JNum (Number 0))) = Inr NaN)"
  using assms
  by (auto simp: normalized_response_def clamp01_def sum_bind_def get_prop_def Math_clamp_NaN_iff
      dest: Math_clamp_Number split: if_splits sum.splits)

lemma normalized_response_defaults:
  "normalized_response rt p (JObj []) = Inr (JObj [
     (''score'', JNum (Number 0)), (''label'', JStr ''uncertain''), (''reasons'', JArr []),
     (''explanation'', JStr ''Analysis completed''), (''confidence'', JNum (Number 0.5)),
     (''model'', JStr (modelName p)), (''provider'', JStr (provider_name p))])"
  by (simp add: normalized_response_def clamp01_def sum_bind_def get_prop_def js_or_def
      Math_max_def Math_min_def)

text \<open>
  Claim C6 at the reply \<open>{"score":"high"}\<close>: the reply parses, the score of the response
  is NaN, which is not in the interval from 0 to 1.
\<close>

theorem C6_non_numeric_score_is_not_clamped:
  "parseAnalysisResponse sample_runtime sample_gemini word_score_reply (online_world script_timeout)
     = (Inr (JObj [
          (''score'', JNum NaN), (''label'', JStr ''uncertain''), (''reasons'', JArr []),
          (''explanation'', JStr ''Analysis completed''), (''confidence'', JNum (Number 0.5)),
          (''model'', JStr ''gemini-free''), (''provider'', JStr ''gemini'')]),
        online_world script_timeout)"
  by (simp add: eval_defs)

lemma label_of_score_iff:
  assumes "low < high"
  shows "(label_of_score low high s = clean \<longleftrightarrow> s < low)
    \<and> (label_of_score low high s = suspicious \<longleftrightarrow> low \<le> s \<and> s < high)
    \<and> (label_of_score low high s = phishing \<longleftrightarrow> s \<ge> high)"
  using assms by (auto simp: label_of_score_def)

lemma validateConfig_numeric_thresholds:
  assumes "env_truthy e ''JWT_SECRET''" "env_truthy e ''DATABASE_URL''"
    and "\<not> str_includes (the (e ''DATABASE_URL'')) ''supabase.co''"
    and "\<not> env_truthy e ''MODEL_PROVIDER''"
    and "parseFloat rt (env_or e ''LOW_THRESHOLD'' ''0.3'') = Number low"
    and "parseFloat rt (env_or e ''HIGH_THRESHOLD'' ''0.7'') = Number high"
    and "parseFloat rt (env_or e ''REPORT_THRESHOLD'' ''0.8'') = Number report"
  shows "validateConfig rt e = Inr () \<longleftrightarrow> low < high \<and> high < report"
  using assms
  by (auto simp: validateConfig_def Let_def env_truthy_def js_ge_def split: option.splits)

text \<open>
  Claim C4 at an environment whose \<open>LOW_THRESHOLD\<close> is \<open>abc\<close>: \<open>parseFloat\<close> yields NaN,
  both comparisons of \<open>validateConfig\<close> are false, and the configuration is loaded with
  the thresholds NaN, 0.7 and 0.8.
\<close>

theorem C4_non_numeric_threshold_is_accepted:
  "sample_env ''LOW_THRESHOLD'' = Some ''abc''
   \<and> parseFloat sample_runtime ''abc'' = NaN
   \<and> validateConfig sample_runtime sample_env = Inr ()
   \<and> map_option lowThreshold (loadConfig sample_runtime sample_env) = Some NaN
   \<and> map_option highThreshold (loadConfig sample_runtime sample_env) = Some (Number 0.7)
   \<and> map_option reportThreshold (loadConfig sample_runtime sample_env) = Some (Number 0.8)"
  by (simp add: loadConfig_def validateConfig_def sample_env_def sample_runtime_def
      env_truthy_def env_or_def str_includes_def js_ge_def Let_def)

end
